theory Spec2Isabelle
  imports Complex_Main "HOL-Library.Multiset"
begin

section \<open>JavaScript values used by the baseline modules\<close>

text \<open>
  Numbers are IEEE doubles in the source; they are modelled as \<open>real\<close>, so rounding error
  and NaN are outside the model. Strings are \<open>char list\<close>; only ASCII letters are
  case-mapped. A JavaScript \<open>Map\<close> or \<open>Set\<close> is an association list or list in insertion
  order, which is the order in which the source iterates it.
\<close>

definition toLowerChar :: "char \<Rightarrow> char" where
  "toLowerChar c =
     (case map_of (zip ''ABCDEFGHIJKLMNOPQRSTUVWXYZ'' ''abcdefghijklmnopqrstuvwxyz'') c of
        None \<Rightarrow> c | Some d \<Rightarrow> d)"

definition toLowerCase :: "string \<Rightarrow> string" where
  "toLowerCase s = map toLowerChar s"

fun startsWith :: "string \<Rightarrow> string \<Rightarrow> bool" where
  "startsWith s [] = True"
| "startsWith [] (c # t) = False"
| "startsWith (a # s) (c # t) = (a = c \<and> startsWith s t)"

text \<open>\<open>strIncludes s t\<close> is \<open>s.includes(t)\<close>: \<open>t\<close> occurs in \<open>s\<close> as a contiguous substring.\<close>

fun strIncludes :: "string \<Rightarrow> string \<Rightarrow> bool" where
  "strIncludes [] t = (t = [])"
| "strIncludes (a # s) t = (startsWith (a # s) t \<or> strIncludes s t)"

definition digitChar :: "nat \<Rightarrow> char" where
  "digitChar d = ''0123456789'' ! (d mod 10)"

fun showNat :: "nat \<Rightarrow> string" where
  "showNat n = (if n < 10 then [digitChar n] else showNat (n div 10) @ [digitChar (n mod 10)])"

declare showNat.simps [simp del]

definition showInt :: "int \<Rightarrow> string" where
  "showInt i = (if i < 0 then CHR ''-'' # showNat (nat (- i)) else showNat (nat i))"

text \<open>\<open>Math.round\<close> rounds to the nearest integer, a tie going up.\<close>

definition mathRound :: "real \<Rightarrow> int" where
  "mathRound x = \<lfloor>x + 1 / 2\<rfloor>"

text \<open>A JavaScript \<open>Map\<close>: \<open>set\<close> overwrites the value of a present key in place and
  appends a new key at the end.\<close>

fun mapSet :: "'k \<Rightarrow> 'v \<Rightarrow> ('k \<times> 'v) list \<Rightarrow> ('k \<times> 'v) list" where
  "mapSet k v [] = [(k, v)]"
| "mapSet k v ((k', v') # m) = (if k' = k then (k, v) # m else (k', v') # mapSet k v m)"

definition mapGet :: "('k \<times> 'v) list \<Rightarrow> 'k \<Rightarrow> 'v option" where
  "mapGet m k = map_of m k"

text \<open>JSON values as JavaScript sees them after \<open>JSON.parse\<close>; \<open>JUndefined\<close> is what reading
  a missing property gives.\<close>

datatype jsval =
    JUndefined
  | JNull
  | JBool bool
  | JNum real
  | JStr string
  | JArr "jsval list"
  | JObj "(string \<times> jsval) list"

text \<open>Property read \<open>v.key\<close> on a value that is not \<open>null\<close> or \<open>undefined\<close>: an own property of an
  object, \<open>undefined\<close> otherwise.\<close>

fun getProp :: "jsval \<Rightarrow> string \<Rightarrow> jsval" where
  "getProp (JObj kvs) key = (case map_of kvs key of None \<Rightarrow> JUndefined | Some v \<Rightarrow> v)"
| "getProp v key = JUndefined"

fun truthy :: "jsval \<Rightarrow> bool" where
  "truthy JUndefined = False"
| "truthy JNull = False"
| "truthy (JBool b) = b"
| "truthy (JNum n) = (n \<noteq> 0)"
| "truthy (JStr s) = (s \<noteq> [])"
| "truthy (JArr xs) = True"
| "truthy (JObj kvs) = True"

text \<open>\<open>typeof v === 'object'\<close>.\<close>

fun typeofObject :: "jsval \<Rightarrow> bool" where
  "typeofObject JNull = True"
| "typeofObject (JArr xs) = True"
| "typeofObject (JObj kvs) = True"
| "typeofObject v = False"

text \<open>\<open>v || undefined\<close>.\<close>

definition orUndefined :: "jsval \<Rightarrow> jsval" where
  "orUndefined v = (if truthy v then v else JUndefined)"

text \<open>\<open>Number(x.toFixed(3))\<close>: the nearest multiple of one thousandth, a tie going away from
  zero.\<close>

definition toFixed3 :: "real \<Rightarrow> real" where
  "toFixed3 x = (if x < 0 then - (real_of_int \<lfloor>(- x) * 1000 + 1 / 2\<rfloor> / 1000)
                 else real_of_int \<lfloor>x * 1000 + 1 / 2\<rfloor> / 1000)"



section \<open>Status records and UA targets (targets.js)\<close>

datatype status = Widely | Newly | Limited | Unknown

fun statusName :: "status \<Rightarrow> string" where
  "statusName Widely = ''widely''"
| "statusName Newly = ''newly''"
| "statusName Limited = ''limited''"
| "statusName Unknown = ''unknown''"

record BaselineStatus =
  status :: status
  low_date :: jsval
  high_date :: jsval

text \<open>A UA distribution object; a missing key reads as \<open>undefined\<close>.\<close>

record UADistribution =
  safari :: "real option"
  chrome :: "real option"
  firefox :: "real option"
  edge :: "real option"

text \<open>\<open>x || 0\<close> on an optional number.\<close>

definition orZero :: "real option \<Rightarrow> real" where
  "orZero x = (case x of None \<Rightarrow> 0 | Some v \<Rightarrow> v)"

text \<open>
  \<open>supportLevels[status]\<close> is a property lookup in an object literal. It finds the number of an
  own key, it finds nothing for most other strings, and for the names that every object
  inherits from \<open>Object.prototype\<close> it finds the inherited member: a function, or the
  prototype object for \<open>__proto__\<close>. Such a member is truthy, so \<open>|| 0.7\<close> keeps it, and
  \<open>Math.min(1.0, baseFactor)\<close> turns it into NaN.
\<close>

definition objectPrototypeKeys :: "string list" where
  "objectPrototypeKeys =
     [''constructor'', ''__defineGetter__'', ''__defineSetter__'', ''hasOwnProperty'',
      ''__lookupGetter__'', ''__lookupSetter__'', ''isPrototypeOf'', ''propertyIsEnumerable'',
      ''toString'', ''valueOf'', ''__proto__'', ''toLocaleString'']"

datatype property = OwnNumber real | InheritedMember | NoProperty

definition supportLevels :: "string \<Rightarrow> property" where
  "supportLevels s =
     (case map_of [(''widely'', 1.0), (''newly'', 0.8), (''limited'', 0.5), (''unknown'', 0.7)] s of
        Some v \<Rightarrow> OwnNumber v
      | None \<Rightarrow> if s \<in> set objectPrototypeKeys then InheritedMember else NoProperty)"

text \<open>\<open>uaSupportFactor\<close>; the result \<open>None\<close> is NaN. \<open>baseFactor\<close> is \<open>None\<close> when it is not a
  number.\<close>

definition uaSupportFactor :: "string \<Rightarrow> UADistribution \<Rightarrow> real option" where
  "uaSupportFactor st uaDistribution =
     (let baseFactor = (case supportLevels st of
                          OwnNumber v \<Rightarrow> Some (if v = 0 then 0.7 else v)
                        | InheritedMember \<Rightarrow> None
                        | NoProperty \<Rightarrow> Some 0.7) in
      if st = ''limited'' then
        (let chromeEdgeShare = orZero (chrome uaDistribution) + orZero (edge uaDistribution)
         in Some (max 0.5 (min 1.0 (0.5 + chromeEdgeShare * 0.5))))
      else if st = ''newly'' then
        (let safariShare = orZero (safari uaDistribution)
         in map_option (\<lambda>b. max 0.5 (min 1.0 (b - safariShare * 0.2))) baseFactor)
      else map_option (\<lambda>b. max 0.5 (min 1.0 b)) baseFactor)"

section \<open>Scoring engine with UA weighting (the score.js that imports targets.js)\<close>

text \<open>
  The sources hold two revisions of score.js. This one imports \<open>uaSupportFactor\<close> from
  targets.js, and its \<open>calculateScore\<close> takes the settings that the audit passes as fifth
  argument.
\<close>

record Token =
  token :: string
  originType :: "string option"

record Usage =
  frequency :: real

definition tokenCountFor :: "string \<Rightarrow> Token list \<Rightarrow> nat" where
  "tokenCountFor featureId tokens =
     (let featureIdStr = toLowerCase featureId in
      length (filter (\<lambda>t. strIncludes (toLowerCase (token t)) featureIdStr
                          \<or> strIncludes featureIdStr (toLowerCase (token t))) tokens))"

text \<open>\<open>calculateUsageWeight\<close> returns \<open>{weight, reason}\<close>; the reason is a display string
  and is left out.\<close>

definition calculateUsageWeight :: "string \<Rightarrow> (string \<rightharpoonup> Usage) option \<Rightarrow> Token list \<Rightarrow> real" where
  "calculateUsageWeight featureId coverageData tokens =
     (let tokenCount = tokenCountFor featureId tokens;
          weight = (if tokenCount > 50 then 1.5
                    else if tokenCount > 20 then 1.3
                    else if tokenCount > 5 then 1.1
                    else if tokenCount = 1 then 0.8
                    else if tokenCount = 0 then 0.5
                    else 1.0);
          weight' = (case coverageData of
                       None \<Rightarrow> weight
                     | Some cov \<Rightarrow>
                         (case cov featureId of
                            None \<Rightarrow> weight
                          | Some usage \<Rightarrow> weight * min (max (frequency usage / 10) 0.5) 1.5))
      in min (max weight' 0.5) 1.5)"

definition getStatusPoints :: "string \<Rightarrow> real" where
  "getStatusPoints st =
     (if st = ''widely'' then 2
      else if st = ''newly'' then 1
      else 0)"

definition coreFeatures :: "string list" where
  "coreFeatures =
     [''fetch'', ''abortable-fetch'', ''promises'', ''async-await'', ''grid'', ''flexbox'',
      ''custom-properties'', ''es6-module'', ''arrow-functions'', ''const-let'',
      ''websockets'', ''xhr'', ''dom-manipulation'', ''forms'', ''semantic-html'',
      ''accessibility'']"

definition isCoreFeature :: "string \<Rightarrow> bool" where
  "isCoreFeature featureId = (featureId \<in> set coreFeatures)"

definition nicheFeatures :: "string list" where
  "nicheFeatures = [''web-nfc'', ''webnn'', ''compute-pressure'', ''document-picture-in-picture'']"

text \<open>A row of the details table; \<open>rstatus\<close> is its \<open>status\<close> string and \<open>rowOrigin\<close> its
  \<open>originType\<close>. \<open>weight\<close> is \<open>undefined\<close> (\<open>None\<close>) when the weight is
  exactly 1; \<open>isCore\<close> is \<open>true\<close> or \<open>undefined\<close>, the latter read as \<open>False\<close>. The
  display-only fields \<open>low_date\<close>, \<open>high_date\<close>, \<open>where\<close> and \<open>weightReason\<close> are left out.\<close>

record BaselineRow =
  feature_id :: string
  rstatus :: string
  weight :: "real option"
  isCore :: bool
  rowOrigin :: "string option"

text \<open>The origin of the first token that maps to the feature, \<open>'first-party'\<close> when there is
  none or its \<open>originType\<close> is missing or empty.\<close>

definition featureOrigin :: "string \<Rightarrow> Token list \<Rightarrow> (string \<rightharpoonup> string) \<Rightarrow> string" where
  "featureOrigin featureId tokens tokenToFeatureMap =
     (case find (\<lambda>t. tokenToFeatureMap (token t) = Some featureId) tokens of
        None \<Rightarrow> ''first-party''
      | Some t \<Rightarrow> (case originType t of
                     None \<Rightarrow> ''first-party''
                   | Some ot \<Rightarrow> if ot = [] then ''first-party'' else ot))"

text \<open>The weight computed in the loop body of \<open>calculateScore\<close>: usage weight, UA factor,
  vendor-only downweight for niche features, final clamp. The status of a status record is
  one of the four, and for their names \<open>uaSupportFactor\<close> returns a number.\<close>

definition featureWeight ::
  "string \<Rightarrow> status \<Rightarrow> Token list \<Rightarrow> (string \<rightharpoonup> string) \<Rightarrow> (string \<rightharpoonup> Usage) option
     \<Rightarrow> UADistribution \<Rightarrow> real" where
  "featureWeight featureId st tokens tokenToFeatureMap usageData uaDistribution =
     (let weight = calculateUsageWeight featureId usageData tokens;
          uaFactor = the (uaSupportFactor (statusName st) uaDistribution);
          weight = weight * uaFactor;
          origin = featureOrigin featureId tokens tokenToFeatureMap;
          weight = (if origin = ''vendor'' \<and> featureId \<in> set nicheFeatures
                    then weight * 0.75 else weight)
      in min (max weight 0.5) 1.5)"

record ScoreAcc =
  totalPoints :: real
  maxPoints :: real
  limitedFeatureCount :: nat
  coreFeatureCount :: nat
  accRows :: "BaselineRow list"

definition scoreStep ::
  "Token list \<Rightarrow> (string \<rightharpoonup> string) \<Rightarrow> (string \<rightharpoonup> Usage) option \<Rightarrow> UADistribution
     \<Rightarrow> ScoreAcc \<Rightarrow> string \<times> BaselineStatus \<Rightarrow> ScoreAcc" where
  "scoreStep tokens tokenToFeatureMap usageData uaDistribution acc entry =
     (let featureId = fst entry;
          st = status (snd entry);
          core = isCoreFeature featureId;
          w = featureWeight featureId st tokens tokenToFeatureMap usageData uaDistribution;
          points = getStatusPoints (statusName st);
          origin = featureOrigin featureId tokens tokenToFeatureMap
      in \<lparr> totalPoints = totalPoints acc + points * w,
           maxPoints = maxPoints acc + 2 * w,
           limitedFeatureCount =
             (if statusName st = ''limited'' then limitedFeatureCount acc + 1
              else limitedFeatureCount acc),
           coreFeatureCount = (if core then coreFeatureCount acc + 1 else coreFeatureCount acc),
           accRows = accRows acc @
             [\<lparr> feature_id = featureId, rstatus = statusName st,
                weight = (if w \<noteq> 1.0 then Some w else None),
                isCore = core,
                rowOrigin = (if origin \<noteq> ''first-party'' then Some origin else None) \<rparr>] \<rparr>)"

definition calculateProgressiveEnhancementBonus :: "(string \<times> BaselineStatus) list \<Rightarrow> real" where
  "calculateProgressiveEnhancementBonus featureStatuses =
     (let coreEntries = filter (\<lambda>e. isCoreFeature (fst e)) featureStatuses;
          enhEntries = filter (\<lambda>e. \<not> isCoreFeature (fst e)) featureStatuses;
          coreCount = length coreEntries;
          coreWidelySupported = length (filter (\<lambda>e. status (snd e) = Widely) coreEntries);
          enhancementCount = length enhEntries;
          enhancementAppropriate =
            length (filter (\<lambda>e. status (snd e) = Newly \<or> status (snd e) = Widely) enhEntries);
          bonus = (if coreCount > 0 \<and> real coreWidelySupported / real coreCount \<ge> 0.9
                   then 0.1 else 0);
          bonus = (if enhancementCount > 0
                      \<and> real enhancementAppropriate / real enhancementCount \<ge> 0.8
                   then bonus + 0.05 else bonus)
      in min bonus 0.15)"

text \<open>\<open>w || 1\<close> on an optional number.\<close>

definition orOne :: "real option \<Rightarrow> real" where
  "orOne x = (case x of None \<Rightarrow> 1 | Some v \<Rightarrow> if v = 0 then 1 else v)"

definition statusOrder :: "string \<Rightarrow> real option" where
  "statusOrder s = map_of [(''limited'', 0), (''newly'', 1), (''widely'', 2), (''unknown'', 3)] s"

text \<open>The comparator of \<open>rows.sort\<close>. \<open>localeCompare\<close> is the host's collation and is a
  parameter. A status outside the table makes the difference NaN, which the comparator
  returns and \<open>Array.prototype.sort\<close> reads as \<open>+0\<close>.\<close>

definition compareRows :: "(string \<Rightarrow> string \<Rightarrow> int) \<Rightarrow> BaselineRow \<Rightarrow> BaselineRow \<Rightarrow> real" where
  "compareRows localeCompare a b =
     (case (statusOrder (rstatus a), statusOrder (rstatus b)) of
        (Some ra, Some rb) \<Rightarrow>
          (let statusDiff = ra - rb in
           if statusDiff \<noteq> 0 then statusDiff
           else (let weightDiff = orOne (weight b) - orOne (weight a) in
                 if weightDiff \<noteq> 0 then weightDiff
                 else real_of_int (localeCompare (feature_id a) (feature_id b))))
      | _ \<Rightarrow> 0)"

text \<open>\<open>Array.prototype.sort\<close> is stable and, for a consistent comparator, returns the
  elements in comparator order; a stable insertion sort computes that result.\<close>

fun insertBy :: "('a \<Rightarrow> 'a \<Rightarrow> real) \<Rightarrow> 'a \<Rightarrow> 'a list \<Rightarrow> 'a list" where
  "insertBy cmp x [] = [x]"
| "insertBy cmp x (y # ys) = (if cmp x y \<le> 0 then x # y # ys else y # insertBy cmp x ys)"

definition sortBy :: "('a \<Rightarrow> 'a \<Rightarrow> real) \<Rightarrow> 'a list \<Rightarrow> 'a list" where
  "sortBy cmp xs = foldr (insertBy cmp) xs []"

record BaselineScore =
  score01 :: real
  numeric100 :: int
  rows :: "BaselineRow list"
  warnings :: "string list"

definition emptyAcc :: ScoreAcc where
  "emptyAcc = \<lparr> totalPoints = 0, maxPoints = 0, limitedFeatureCount = 0,
                coreFeatureCount = 0, accRows = [] \<rparr>"

text \<open>\<open>calculateScore\<close>. The UA distribution is what \<open>loadTargets\<close> returned for the settings
  (it reads the settings or the file system).\<close>

definition calculateScore ::
  "(string \<Rightarrow> string \<Rightarrow> int) \<Rightarrow> (string \<times> BaselineStatus) list \<Rightarrow> Token list
     \<Rightarrow> (string \<rightharpoonup> string) \<Rightarrow> (string \<rightharpoonup> Usage) option \<Rightarrow> UADistribution \<Rightarrow> BaselineScore" where
  "calculateScore localeCompare featureStatuses tokens tokenToFeatureMap usageData uaDistribution =
     (let acc = foldl (scoreStep tokens tokenToFeatureMap usageData uaDistribution)
                  emptyAcc featureStatuses;
          progressiveBonus = calculateProgressiveEnhancementBonus featureStatuses;
          score = (if maxPoints acc > 0 then totalPoints acc / maxPoints acc else 1);
          score = min (score + progressiveBonus) 1.0;
          n = length featureStatuses;
          limitedRatio = (if n > 0 then real (limitedFeatureCount acc) / real n else 0);
          penal = (limitedRatio > 0.3);
          score = (if penal then score * 0.8 else score);
          unknownCount = length (filter (\<lambda>e. status (snd e) = Unknown) featureStatuses)
      in \<lparr> score01 = score,
           numeric100 = mathRound (score * 100),
           rows = sortBy (compareRows localeCompare) (accRows acc),
           warnings =
             (if penal then [''High usage of features with limited browser support detected'']
              else [])
             @ (if n = 0 then [''No Web Platform features detected''] else [])
             @ (if unknownCount > 0
                then [''Unable to determine Baseline status for '' @ showNat unknownCount
                      @ '' features'']
                else [])
             @ (if coreFeatureCount acc = 0 \<and> n > 0
                then [''Consider using well-established web platform features for better compatibility'']
                else []) \<rparr>)"

section \<open>Scoring engine without UA weighting (the score.js that does not import targets.js)\<close>

text \<open>
  The revision filed as core/computed/baseline/score.js: no UA factor, a core bonus in the
  usage weight, weights clamped to [0.3, 2.0] and three points for a widely available
  feature. Its definitions carry the suffix \<open>_scorejs\<close>; \<open>isCoreFeature\<close>,
  \<open>calculateProgressiveEnhancementBonus\<close> and the row type are the same in both revisions.
\<close>

definition calculateUsageWeight_scorejs ::
  "string \<Rightarrow> (string \<rightharpoonup> Usage) option \<Rightarrow> Token list \<Rightarrow> real" where
  "calculateUsageWeight_scorejs featureId coverageData tokens =
     (let weight = (if isCoreFeature featureId then 1.2 else 1.0);
          tokenCount = tokenCountFor featureId tokens;
          weight = (if tokenCount > 50 then weight * 1.8
                    else if tokenCount > 20 then weight * 1.5
                    else if tokenCount > 5 then weight * 1.2
                    else if tokenCount = 1 then weight * 0.7
                    else if tokenCount = 0 then weight * 0.3
                    else weight);
          weight = (case coverageData of
                      None \<Rightarrow> weight
                    | Some cov \<Rightarrow>
                        (case cov featureId of
                           None \<Rightarrow> weight
                         | Some usage \<Rightarrow> weight * min (max (frequency usage / 10) 0.5) 1.5))
      in min (max weight 0.3) 2.0)"

definition getStatusPoints_scorejs :: "string \<Rightarrow> bool \<Rightarrow> real" where
  "getStatusPoints_scorejs st core =
     (if st = ''widely'' then 3
      else if st = ''newly'' then (if core then 1.5 else 2)
      else if st = ''limited'' then (if core then - 1 else 0)
      else 0)"

definition scoreStep_scorejs ::
  "Token list \<Rightarrow> (string \<rightharpoonup> Usage) option \<Rightarrow> ScoreAcc \<Rightarrow> string \<times> BaselineStatus \<Rightarrow> ScoreAcc" where
  "scoreStep_scorejs tokens usageData acc entry =
     (let featureId = fst entry;
          st = status (snd entry);
          core = isCoreFeature featureId;
          w = calculateUsageWeight_scorejs featureId usageData tokens;
          points = getStatusPoints_scorejs (statusName st) core
      in \<lparr> totalPoints = totalPoints acc + points * w,
           maxPoints = maxPoints acc + 3 * w,
           limitedFeatureCount =
             (if statusName st = ''limited'' then limitedFeatureCount acc + 1
              else limitedFeatureCount acc),
           coreFeatureCount = (if core then coreFeatureCount acc + 1 else coreFeatureCount acc),
           accRows = accRows acc @
             [\<lparr> feature_id = featureId, rstatus = statusName st,
                weight = (if w \<noteq> 1.0 then Some w else None),
                isCore = core,
                rowOrigin = None \<rparr>] \<rparr>)"

definition statusOrder_scorejs :: "string \<Rightarrow> real option" where
  "statusOrder_scorejs s =
     map_of [(''limited'', 0), (''unknown'', 1), (''newly'', 2), (''widely'', 3)] s"

definition compareRows_scorejs :: "BaselineRow \<Rightarrow> BaselineRow \<Rightarrow> real" where
  "compareRows_scorejs a b =
     (if isCore a \<and> \<not> isCore b \<and> rstatus a = ''limited'' then - 1
      else if isCore b \<and> \<not> isCore a \<and> rstatus b = ''limited'' then 1
      else (case (statusOrder_scorejs (rstatus a), statusOrder_scorejs (rstatus b)) of
              (Some ra, Some rb) \<Rightarrow>
                (let statusDiff = ra - rb in
                 if statusDiff \<noteq> 0 then statusDiff
                 else orOne (weight b) - orOne (weight a))
            | _ \<Rightarrow> 0))"

definition calculateScore_scorejs ::
  "(string \<times> BaselineStatus) list \<Rightarrow> Token list \<Rightarrow> (string \<rightharpoonup> Usage) option \<Rightarrow> BaselineScore" where
  "calculateScore_scorejs featureStatuses tokens usageData =
     (let acc = foldl (scoreStep_scorejs tokens usageData) emptyAcc featureStatuses;
          progressiveBonus = calculateProgressiveEnhancementBonus featureStatuses;
          score = (if maxPoints acc > 0 then totalPoints acc / maxPoints acc else 1);
          score = min (score + progressiveBonus) 1.0;
          n = length featureStatuses;
          limitedRatio = (if n > 0 then real (limitedFeatureCount acc) / real n else 0);
          penal = (limitedRatio > 0.3);
          score = (if penal then score * 0.8 else score);
          unknownCount = length (filter (\<lambda>e. status (snd e) = Unknown) featureStatuses)
      in \<lparr> score01 = score,
           numeric100 = mathRound (score * 100),
           rows = sortBy compareRows_scorejs (accRows acc),
           warnings =
             (if penal then [''High usage of features with limited browser support detected'']
              else [])
             @ (if n = 0 then [''No Web Platform features detected''] else [])
             @ (if unknownCount > 0
                then [''Unable to determine Baseline status for '' @ showNat unknownCount
                      @ '' features'']
                else [])
             @ (if coreFeatureCount acc = 0 \<and> n > 0
                then [''Consider using well-established web platform features for better compatibility'']
                else []) \<rparr>)"

section \<open>The row order as the specification words it, and the rows of a run\<close>

text \<open>
  \<open>specRowOrder\<close> follows the specification: status rank Limited < Newly < Widely < Unknown,
  then weight descending, then the identifier ascending in the collation. \<open>rowWeight\<close> reads the
  weight of a row, a missing one being 1. \<open>collatesOn S\<close> says that the collation is a total
  order on the identifiers in \<open>S\<close>. \<open>scorejsRowOrder\<close> is the order of the engine without UA
  weighting: core limited rows, other limited rows, unknown, newly, widely, then weight
  descending. \<open>rowOf\<close> and \<open>rowOf_scorejs\<close> are the rows the two loop bodies push.
\<close>

definition rowWeight :: "BaselineRow \<Rightarrow> real" where
  "rowWeight r = (case weight r of None \<Rightarrow> 1 | Some w \<Rightarrow> w)"

definition specStatusRank :: "string \<Rightarrow> nat" where
  "specStatusRank s =
     (if s = ''limited'' then 0 else if s = ''newly'' then 1 else if s = ''widely'' then 2 else 3)"

definition specRowOrder :: "(string \<Rightarrow> string \<Rightarrow> int) \<Rightarrow> BaselineRow \<Rightarrow> BaselineRow \<Rightarrow> bool" where
  "specRowOrder localeCompare a b =
     (specStatusRank (rstatus a) < specStatusRank (rstatus b)
      \<or> (specStatusRank (rstatus a) = specStatusRank (rstatus b)
          \<and> (rowWeight a > rowWeight b
              \<or> (rowWeight a = rowWeight b
                  \<and> localeCompare (feature_id a) (feature_id b) \<le> 0))))"

definition collatesOn :: "string set \<Rightarrow> (string \<Rightarrow> string \<Rightarrow> int) \<Rightarrow> bool" where
  "collatesOn S localeCompare =
     ((\<forall>a\<in>S. \<forall>b\<in>S. localeCompare a b \<le> 0 \<or> localeCompare b a \<le> 0)
      \<and> (\<forall>a\<in>S. \<forall>b\<in>S. \<forall>c\<in>S. localeCompare a b \<le> 0 \<longrightarrow> localeCompare b c \<le> 0
            \<longrightarrow> localeCompare a c \<le> 0)
      \<and> (\<forall>a\<in>S. \<forall>b\<in>S. localeCompare a b \<le> 0 \<longrightarrow> localeCompare b a \<le> 0 \<longrightarrow> a = b))"

definition rowOf ::
  "Token list \<Rightarrow> (string \<rightharpoonup> string) \<Rightarrow> (string \<rightharpoonup> Usage) option \<Rightarrow> UADistribution
     \<Rightarrow> string \<times> BaselineStatus \<Rightarrow> BaselineRow" where
  "rowOf tokens tokenToFeatureMap usageData uaDistribution entry =
     (let w = featureWeight (fst entry) (status (snd entry)) tokens tokenToFeatureMap usageData
                uaDistribution;
          origin = featureOrigin (fst entry) tokens tokenToFeatureMap
      in \<lparr> feature_id = fst entry, rstatus = statusName (status (snd entry)),
           weight = (if w \<noteq> 1.0 then Some w else None),
           isCore = isCoreFeature (fst entry),
           rowOrigin = (if origin \<noteq> ''first-party'' then Some origin else None) \<rparr>)"

definition scorejsClass :: "BaselineRow \<Rightarrow> nat" where
  "scorejsClass r =
     (if rstatus r = ''limited'' then (if isCore r then 0 else 1)
      else if rstatus r = ''unknown'' then 2
      else if rstatus r = ''newly'' then 3
      else 4)"

definition scorejsRowOrder :: "BaselineRow \<Rightarrow> BaselineRow \<Rightarrow> bool" where
  "scorejsRowOrder a b =
     (scorejsClass a < scorejsClass b
      \<or> (scorejsClass a = scorejsClass b \<and> rowWeight a \<ge> rowWeight b))"

definition rowOf_scorejs ::
  "Token list \<Rightarrow> (string \<rightharpoonup> Usage) option \<Rightarrow> string \<times> BaselineStatus \<Rightarrow> BaselineRow" where
  "rowOf_scorejs tokens usageData entry =
     (let w = calculateUsageWeight_scorejs (fst entry) usageData tokens
      in \<lparr> feature_id = fst entry, rstatus = statusName (status (snd entry)),
           weight = (if w \<noteq> 1.0 then Some w else None),
           isCore = isCoreFeature (fst entry),
           rowOrigin = None \<rparr>)"

definition statusRec :: "status \<Rightarrow> BaselineStatus" where
  "statusRec s = \<lparr> status = s, low_date = JUndefined, high_date = JUndefined \<rparr>"

section \<open>Budget evaluator (budgets.js)\<close>

text \<open>A per-route policy as \<open>evaluateBudgets\<close> reads it: either field may be missing.\<close>

record RoutePolicy =
  routeMinScore :: "real option"
  routeForbidLimited :: "bool option"

record BaselineBudget =
  minScore :: "real option"
  forbidLimited :: bool
  allowUnknown :: bool
  perRoute :: "(string \<times> RoutePolicy) list"

definition clampScore :: "jsval \<Rightarrow> real option" where
  "clampScore v = (case v of JNum n \<Rightarrow> Some (max 0 (min 1 n)) | _ \<Rightarrow> None)"

text \<open>One iteration of the loop over \<open>Object.entries(policy.perRoute)\<close>. Reading a property of
  \<open>null\<close> throws a TypeError (\<open>None\<close>).\<close>

definition normalizeRoute ::
  "(string \<times> RoutePolicy) list option \<Rightarrow> string \<times> jsval \<Rightarrow> (string \<times> RoutePolicy) list option" where
  "normalizeRoute acc entry =
     (case acc of
        None \<Rightarrow> None
      | Some routes \<Rightarrow>
          (let route = fst entry; routePolicy = snd entry in
           if typeofObject routePolicy then
             (if routePolicy = JNull then None
              else Some (mapSet route
                     \<lparr> routeMinScore = clampScore (getProp routePolicy ''minScore''),
                       routeForbidLimited = Some (truthy (getProp routePolicy ''forbidLimited'')) \<rparr>
                     routes))
           else Some routes))"

text \<open>\<open>normalizePolicy\<close>; \<open>None\<close> is a thrown TypeError. Arrays as \<open>perRoute\<close> values are
  outside the model.\<close>

definition normalizePolicy :: "jsval \<Rightarrow> BaselineBudget option" where
  "normalizePolicy policy =
     (if policy = JUndefined \<or> policy = JNull then None
      else
        (let pr = getProp policy ''perRoute'';
             routes = (case pr of
                         JObj entries \<Rightarrow> foldl normalizeRoute (Some []) entries
                       | _ \<Rightarrow> Some [])
         in case routes of
              None \<Rightarrow> None
            | Some rs \<Rightarrow>
                Some \<lparr> minScore = clampScore (getProp policy ''minScore''),
                       forbidLimited = truthy (getProp policy ''forbidLimited''),
                       allowUnknown = (getProp policy ''allowUnknown'' \<noteq> JBool False),
                       perRoute = rs \<rparr>))"

record BudgetEvaluation =
  violated :: bool
  reasons :: "string list"

definition pluralS :: "nat \<Rightarrow> string" where
  "pluralS n = (if n > 1 then ''s'' else [])"

text \<open>\<open>reasons[reasons.length - 1] += suffix\<close> on a non-empty list.\<close>

definition appendToLast :: "string list \<Rightarrow> string \<Rightarrow> string list" where
  "appendToLast rs suffix = (if rs = [] then rs else butlast rs @ [last rs @ suffix])"

definition evaluateBudgets ::
  "BaselineBudget \<Rightarrow> string \<Rightarrow> real \<Rightarrow> BaselineRow list \<Rightarrow> BudgetEvaluation" where
  "evaluateBudgets policy route score rws =
     (let routePolicy = (case map_of (perRoute policy) route of
                           None \<Rightarrow> \<lparr> routeMinScore = None, routeForbidLimited = None \<rparr>
                         | Some rp \<Rightarrow> rp);
          effMinScore = (case routeMinScore routePolicy of
                           None \<Rightarrow> minScore policy | Some m \<Rightarrow> Some m);
          effForbidLimited = (case routeForbidLimited routePolicy of
                                None \<Rightarrow> forbidLimited policy | Some b \<Rightarrow> b);
          effAllowUnknown = allowUnknown policy;
          r1 = (case effMinScore of
                  None \<Rightarrow> []
                | Some m \<Rightarrow>
                    if score < m
                    then [''score '' @ showInt (mathRound (score * 100)) @ ''% < ''
                          @ showInt (mathRound (m * 100)) @ ''%'']
                    else []);
          limitedCount = length (filter (\<lambda>r. rstatus r = ''limited'') rws);
          r2 = (if effForbidLimited \<and> list_ex (\<lambda>r. rstatus r = ''limited'') rws
                then [showNat limitedCount @ '' limited feature'' @ pluralS limitedCount
                      @ '' present'']
                else []);
          unknownCount = length (filter (\<lambda>r. rstatus r = ''unknown'') rws);
          r3 = (if \<not> effAllowUnknown \<and> list_ex (\<lambda>r. rstatus r = ''unknown'') rws
                then [showNat unknownCount @ '' unknown feature'' @ pluralS unknownCount
                      @ '' present'']
                else []);
          rs = r1 @ r2 @ r3;
          isViolated = (rs \<noteq> [])
      in \<lparr> violated = isViolated,
           reasons = (if isViolated \<and> route \<noteq> ''/'' \<and> routeMinScore routePolicy \<noteq> None
                      then appendToLast rs ('' on route '' @ route) else rs) \<rparr>)"

section \<open>Diff engine (build/plugins/baseline-diff.mjs)\<close>

text \<open>An item of \<open>audit.details.items\<close>; \<open>item_status\<close> and \<open>item_weight\<close> may be missing.\<close>

record DiffItem =
  item_id :: string
  item_status :: "string option"
  item_weight :: "real option"

text \<open>The \<open>baseline-readiness\<close> audit of a report; \<open>audit_items\<close> is \<open>None\<close> when \<open>details\<close> or
  \<open>details.items\<close> is missing. A report without the audit is \<open>None\<close>.\<close>

record BaselineAudit =
  audit_score :: real
  audit_items :: "DiffItem list option"

record FeatureData =
  fd_status :: "string option"
  fd_weight :: real

definition extractBaselineData :: "BaselineAudit option \<Rightarrow> (real \<times> DiffItem list) option" where
  "extractBaselineData lhr =
     (case lhr of
        None \<Rightarrow> None
      | Some audit \<Rightarrow> (case audit_items audit of
                         None \<Rightarrow> None
                       | Some its \<Rightarrow> Some (audit_score audit, its)))"

definition buildFeatureMap :: "DiffItem list \<Rightarrow> (string \<times> FeatureData) list" where
  "buildFeatureMap its =
     foldl (\<lambda>m item. mapSet (item_id item)
                        \<lparr> fd_status = map_option toLowerCase (item_status item),
                          fd_weight = orOne (item_weight item) \<rparr> m) [] its"

definition findNewLimited ::
  "(string \<times> FeatureData) list \<Rightarrow> (string \<times> FeatureData) list \<Rightarrow> string list" where
  "findNewLimited baseMap headMap =
     map fst (filter (\<lambda>(featureId, headData).
                fd_status headData = Some ''limited''
                \<and> (case mapGet baseMap featureId of
                      None \<Rightarrow> True
                    | Some baseData \<Rightarrow> fd_status baseData \<noteq> Some ''limited'')) headMap)"

text \<open>\<open>statusRank[s] || 0\<close>.\<close>

definition statusRank :: "string option \<Rightarrow> nat" where
  "statusRank s =
     (case s of
        None \<Rightarrow> 0
      | Some n \<Rightarrow> (case map_of [(''widely'', 3), (''newly'', 2), (''limited'', 1), (''unknown'', 0)] n of
                     None \<Rightarrow> 0 | Some r \<Rightarrow> r))"

record Downgrade =
  dg_feature :: string
  dg_from :: "string option"
  dg_to :: "string option"

definition findDowngrades ::
  "(string \<times> FeatureData) list \<Rightarrow> (string \<times> FeatureData) list \<Rightarrow> Downgrade list" where
  "findDowngrades baseMap headMap =
     concat (map (\<lambda>(featureId, headData).
               (case mapGet baseMap featureId of
                  None \<Rightarrow> []
                | Some baseData \<Rightarrow>
                    if statusRank (fd_status headData) < statusRank (fd_status baseData)
                    then [\<lparr> dg_feature = featureId, dg_from = fd_status baseData,
                            dg_to = fd_status headData \<rparr>]
                    else [])) headMap)"

text \<open>\<open>statusPoints[s] * w\<close>; \<open>None\<close> is NaN (a status outside the table).\<close>

definition statusPointsTimes :: "string option \<Rightarrow> real \<Rightarrow> real option" where
  "statusPointsTimes s w =
     (case s of
        None \<Rightarrow> None
      | Some n \<Rightarrow> (case map_of [(''widely'', 2), (''newly'', 1), (''limited'', 0), (''unknown'', 0)] n of
                     None \<Rightarrow> None | Some p \<Rightarrow> Some (p * (if w = 0 then 1 else w))))"

definition findTopContributors ::
  "(string \<times> FeatureData) list \<Rightarrow> (string \<times> FeatureData) list \<Rightarrow> nat \<Rightarrow> (string \<times> real) list" where
  "findTopContributors baseMap headMap limit =
     (let contributors =
            concat (map (\<lambda>(featureId, headData).
              (let basePoints = (case mapGet baseMap featureId of
                                   None \<Rightarrow> Some 0
                                 | Some baseData \<Rightarrow>
                                     statusPointsTimes (fd_status baseData) (fd_weight baseData));
                   headPoints = statusPointsTimes (fd_status headData) (fd_weight headData)
               in case (basePoints, headPoints) of
                    (Some b, Some h) \<Rightarrow> if \<bar>h - b\<bar> > 0.001 then [(featureId, h - b)] else []
                  | _ \<Rightarrow> [])) headMap)
      in take limit (sortBy (\<lambda>a b. \<bar>snd b\<bar> - \<bar>snd a\<bar>) contributors))"

record DiffResult =
  scoreDelta :: real
  newLimited :: "string list"
  downgrades :: "Downgrade list"
  topContributors :: "(string \<times> real) list"

text \<open>\<open>main\<close> on two parsed reports; \<open>Inl\<close> is the error message printed before
  \<open>process.exit(1)\<close>, \<open>Inr\<close> the object written to the diff file.\<close>

definition main :: "BaselineAudit option \<Rightarrow> BaselineAudit option \<Rightarrow> string + DiffResult" where
  "main baseLHR headLHR =
     (case (extractBaselineData baseLHR, extractBaselineData headLHR) of
        (Some (baseScore, baseItems), Some (headScore, headItems)) \<Rightarrow>
          (let baseMap = buildFeatureMap baseItems;
               headMap = buildFeatureMap headItems
           in Inr \<lparr> scoreDelta = toFixed3 (headScore - baseScore),
                    newLimited = findNewLimited baseMap headMap,
                    downgrades = findDowngrades baseMap headMap,
                    topContributors = findTopContributors baseMap headMap 5 \<rparr>)
      | _ \<Rightarrow> Inl ''Baseline audit not found in one or both reports'')"

section \<open>Circuit breaker (webstatus-client.js)\<close>

definition MAX_RETRIES :: nat where "MAX_RETRIES = 3"
definition CIRCUIT_BREAKER_THRESHOLD :: nat where "CIRCUIT_BREAKER_THRESHOLD = 5"
definition CIRCUIT_BREAKER_TIMEOUT :: int where "CIRCUIT_BREAKER_TIMEOUT = 30000"

datatype BreakerMode = Closed | Open | HalfOpen

record CircuitBreaker =
  failureCount :: nat
  lastFailureTime :: int
  state :: BreakerMode

definition initialBreaker :: CircuitBreaker where
  "initialBreaker = \<lparr> failureCount = 0, lastFailureTime = 0, state = Closed \<rparr>"

text \<open>The three operations on \<open>circuitBreakerState\<close>; \<open>now\<close> is the value of \<open>Date.now()\<close>.\<close>

definition shouldAllowRequest :: "int \<Rightarrow> CircuitBreaker \<Rightarrow> bool \<times> CircuitBreaker" where
  "shouldAllowRequest now cb =
     (if state cb = Closed then (True, cb)
      else if state cb = Open then
        (if now - lastFailureTime cb > CIRCUIT_BREAKER_TIMEOUT
         then (True, cb\<lparr> state := HalfOpen \<rparr>)
         else (False, cb))
      else (True, cb))"

definition recordSuccess :: "CircuitBreaker \<Rightarrow> CircuitBreaker" where
  "recordSuccess cb = cb\<lparr> failureCount := 0, state := Closed \<rparr>"

definition recordFailure :: "int \<Rightarrow> CircuitBreaker \<Rightarrow> CircuitBreaker" where
  "recordFailure now cb =
     (let cb = cb\<lparr> failureCount := failureCount cb + 1, lastFailureTime := now \<rparr>
      in if failureCount cb \<ge> CIRCUIT_BREAKER_THRESHOLD then cb\<lparr> state := Open \<rparr> else cb)"

text \<open>Sequences of breaker operations, for statements about which states can be reached.\<close>

datatype BreakerOp = Allow int | Success | Failure int

fun applyOp :: "BreakerOp \<Rightarrow> CircuitBreaker \<Rightarrow> CircuitBreaker" where
  "applyOp (Allow now) cb = snd (shouldAllowRequest now cb)"
| "applyOp Success cb = recordSuccess cb"
| "applyOp (Failure now) cb = recordFailure now cb"

definition runOps :: "BreakerOp list \<Rightarrow> CircuitBreaker \<Rightarrow> CircuitBreaker" where
  "runOps ops cb = foldl (\<lambda>c op. applyOp op c) cb ops"

text \<open>
  What a sequence of operations says about failures: \<open>failureTimes ops\<close> are the times of its
  \<open>recordFailure\<close> calls in order, \<open>lastFailureAt ops\<close> is the time of the last of them (0, the
  initial value of the field, when there is none), and \<open>consecutiveFailures ops\<close> is the number
  of \<open>recordFailure\<close> calls after the last \<open>recordSuccess\<close>.
\<close>

fun failureTimes :: "BreakerOp list \<Rightarrow> int list" where
  "failureTimes [] = []"
| "failureTimes (Failure t # ops) = t # failureTimes ops"
| "failureTimes (Allow t # ops) = failureTimes ops"
| "failureTimes (Success # ops) = failureTimes ops"

definition lastFailureAt :: "BreakerOp list \<Rightarrow> int" where
  "lastFailureAt ops = (if failureTimes ops = [] then 0 else last (failureTimes ops))"

definition consecutiveFailures :: "BreakerOp list \<Rightarrow> nat" where
  "consecutiveFailures ops =
     length (failureTimes (rev (takeWhile (\<lambda>op. op \<noteq> Success) (rev ops))))"

section \<open>Batched status resolver (webstatus-client.js)\<close>

text \<open>
  The module state: the cache, the breaker and the hit/miss counters. The environment is an
  oracle: \<open>clockAt env k\<close> is the value of the \<open>k\<close>-th \<open>Date.now()\<close> that the breaker reads and
  \<open>respond env k url\<close> is what the \<open>k\<close>-th \<open>fetch\<close> does; the counters \<open>clockReads\<close> and
  \<open>netCalls\<close> in the state say how many of each happened. \<open>sleep\<close> only lets time pass and
  has no counterpart. The batches of a window, which the source starts together, are run one
  after the other.
\<close>

datatype JsonOutcome = ParseError string | Parsed jsval

datatype RawOutcome =
    Aborted
  | Rejected string
  | Responded nat string JsonOutcome

record Env =
  clockAt :: "nat \<Rightarrow> int"
  respond :: "nat \<Rightarrow> string \<Rightarrow> RawOutcome"

record ClientState =
  cache :: "string \<rightharpoonup> BaselineStatus"
  breaker :: CircuitBreaker
  hits :: nat
  misses :: nat
  clockReads :: nat
  netCalls :: nat


definition unknownStatus :: BaselineStatus where
  "unknownStatus = \<lparr> status = Unknown, low_date = JUndefined, high_date = JUndefined \<rparr>"

definition allowStep :: "Env \<Rightarrow> ClientState \<Rightarrow> bool \<times> ClientState" where
  "allowStep env st =
     (let r = shouldAllowRequest (clockAt env (clockReads st)) (breaker st)
      in (fst r, st\<lparr> breaker := snd r, clockReads := clockReads st + 1 \<rparr>))"

definition successStep :: "ClientState \<Rightarrow> ClientState" where
  "successStep st = st\<lparr> breaker := recordSuccess (breaker st) \<rparr>"

definition failureStep :: "Env \<Rightarrow> ClientState \<Rightarrow> ClientState" where
  "failureStep env st =
     st\<lparr> breaker := recordFailure (clockAt env (clockReads st)) (breaker st),
         clockReads := clockReads st + 1 \<rparr>"

definition validIdChars :: string where
  "validIdChars = ''abcdefghijklmnopqrstuvwxyzABCDEFGHIJKLMNOPQRSTUVWXYZ0123456789-_.''"

definition sanitizeId :: "string \<Rightarrow> string" where
  "sanitizeId ident = filter (\<lambda>c. c \<in> set validIdChars) ident"

fun joinWith :: "string \<Rightarrow> string list \<Rightarrow> string" where
  "joinWith sep [] = []"
| "joinWith sep [x] = x"
| "joinWith sep (x # y # ys) = x @ sep @ joinWith sep (y # ys)"

text \<open>\<open>buildQuery\<close>; \<open>Inl\<close> is the message of the thrown error.\<close>

definition buildQuery :: "string list \<Rightarrow> string + string" where
  "buildQuery featureIds =
     (let validIds = filter (\<lambda>i. i \<noteq> [])
                       (map sanitizeId (filter (\<lambda>i. i \<noteq> []) featureIds))
      in if validIds = [] then Inl ''No valid feature IDs provided''
         else Inr (joinWith '' OR '' (map (\<lambda>i. ''id:'' @ i) validIds)))"

definition validFeature :: "jsval \<Rightarrow> bool" where
  "validFeature feature =
     (truthy feature
      \<and> (case getProp feature ''feature_id'' of JStr s \<Rightarrow> True | _ \<Rightarrow> False)
      \<and> (\<not> truthy (getProp feature ''baseline'')
         \<or> (typeofObject (getProp feature ''baseline'')
            \<and> getProp (getProp feature ''baseline'') ''status''
                \<in> set [JStr ''limited'', JStr ''newly'', JStr ''widely''])))"

definition isValidResponse :: "jsval \<Rightarrow> bool" where
  "isValidResponse data =
     (truthy data \<and> typeofObject data
      \<and> (case getProp data ''data'' of
           JArr features \<Rightarrow> list_all validFeature features
         | _ \<Rightarrow> False))"

text \<open>A feature of a validated response, as the typedef \<open>WebStatusFeature\<close> has it: the
  identifier and, when \<open>baseline\<close> is present, its status and the two raw dates.\<close>

record WebStatusFeature =
  wf_id :: string
  wf_baseline :: "(status \<times> jsval \<times> jsval) option"

definition statusOfName :: "jsval \<Rightarrow> status option" where
  "statusOfName v =
     (if v = JStr ''limited'' then Some Limited
      else if v = JStr ''newly'' then Some Newly
      else if v = JStr ''widely'' then Some Widely
      else None)"

text \<open>Reading a feature of a response that passed \<open>isValidResponse\<close>; the default branches
  are not reached for such a feature.\<close>

definition toFeature :: "jsval \<Rightarrow> WebStatusFeature" where
  "toFeature feature =
     \<lparr> wf_id = (case getProp feature ''feature_id'' of JStr s \<Rightarrow> s | _ \<Rightarrow> []),
       wf_baseline =
         (let b = getProp feature ''baseline'' in
          if truthy b then
            (case statusOfName (getProp b ''status'') of
               None \<Rightarrow> None
             | Some st \<Rightarrow> Some (st, getProp b ''low_date'', getProp b ''high_date''))
          else None) \<rparr>"

definition responseFeatures :: "jsval \<Rightarrow> WebStatusFeature list" where
  "responseFeatures data =
     (case getProp data ''data'' of JArr features \<Rightarrow> map toFeature features | _ \<Rightarrow> [])"

text \<open>\<open>fetchWithTimeout\<close>: an abort becomes an error whose message names the timeout; \<open>Inl\<close>
  is the message of the thrown error.\<close>

definition fetchWithTimeout :: "RawOutcome \<Rightarrow> string + (nat \<times> string \<times> JsonOutcome)" where
  "fetchWithTimeout raw =
     (case raw of
        Aborted \<Rightarrow> Inl ''Request timeout after 5000ms''
      | Rejected msg \<Rightarrow> Inl msg
      | Responded code text body \<Rightarrow> Inr (code, text, body))"

text \<open>The \<open>try\<close> block of \<open>fetchFeaturesBatch\<close>: it returns the features, returns the promise
  of the next attempt, or throws into the \<open>catch\<close> clause.\<close>

datatype TryResult =
    Returned "WebStatusFeature list" ClientState
  | RetryNow ClientState
  | Thrown string ClientState

definition responseOk :: "nat \<Rightarrow> bool" where
  "responseOk code = (200 \<le> code \<and> code \<le> 299)"

definition tryBlock :: "Env \<Rightarrow> string \<Rightarrow> nat \<Rightarrow> ClientState \<Rightarrow> TryResult" where
  "tryBlock env url retries st =
     (let raw = respond env (netCalls st) url;
          st = st\<lparr> netCalls := netCalls st + 1 \<rparr>
      in case fetchWithTimeout raw of
           Inl msg \<Rightarrow> Thrown msg st
         | Inr (code, text, body) \<Rightarrow>
             if \<not> responseOk code then
               (if code = 429 then
                  (if retries < MAX_RETRIES then RetryNow st
                   else Thrown (''Rate limited after '' @ showNat (retries + 1) @ '' attempts'')
                          (failureStep env st))
                else if code \<ge> 500 then
                  (if retries < MAX_RETRIES then RetryNow st
                   else Thrown (''Server error: '' @ showNat code) (failureStep env st))
                else Thrown (''Client error: '' @ showNat code @ '' '' @ text)
                       (failureStep env st))
             else
               (case body of
                  ParseError msg \<Rightarrow>
                    Thrown (''Invalid JSON response: '' @ msg) (failureStep env st)
                | Parsed data \<Rightarrow>
                    if \<not> isValidResponse data
                    then Thrown ''Invalid response structure from WebStatus API''
                           (failureStep env st)
                    else Returned (responseFeatures data) (successStep st)))"

lemma tryBlock_RetryNow: "tryBlock env url retries st = RetryNow st' \<Longrightarrow> retries < MAX_RETRIES"
  by (auto simp: tryBlock_def Let_def split: sum.splits if_splits JsonOutcome.splits prod.splits)

definition queryUrl :: "string \<Rightarrow> string" where
  "queryUrl query = ''https://api.webstatus.dev/v1/features?q='' @ query"

text \<open>\<open>fetchFeaturesBatch\<close>; \<open>Inl\<close> is the message of the error it rejects with. The query is
  passed to the oracle before \<open>encodeURIComponent\<close>. An error reaches the \<open>catch\<close> clause only
  after \<open>fetchWithTimeout\<close> has replaced an AbortError by an error whose message contains
  \<open>timeout\<close>, so the test of the error name has no counterpart. The recursive calls are
  returned without \<open>await\<close>: their rejection is not caught again.\<close>

function fetchFeaturesBatch ::
  "Env \<Rightarrow> string list \<Rightarrow> nat \<Rightarrow> ClientState \<Rightarrow> (string + WebStatusFeature list) \<times> ClientState" where
  "fetchFeaturesBatch env featureIds retries st =
     (case allowStep env st of
        (False, st1) \<Rightarrow>
          (Inl ''Circuit breaker is open - WebStatus API temporarily unavailable'', st1)
      | (True, st1) \<Rightarrow>
          if featureIds = [] then (Inr [], st1)
          else
            (case buildQuery featureIds of
               Inl msg \<Rightarrow> (Inl (''Invalid feature IDs: '' @ msg), st1)
             | Inr query \<Rightarrow>
                 (case tryBlock env (queryUrl query) retries st1 of
                    Returned features st2 \<Rightarrow> (Inr features, st2)
                  | RetryNow st2 \<Rightarrow> fetchFeaturesBatch env featureIds (retries + 1) st2
                  | Thrown msg st2 \<Rightarrow>
                      if strIncludes msg ''timeout'' then
                        (if retries < MAX_RETRIES
                         then fetchFeaturesBatch env featureIds (retries + 1) st2
                         else (Inl (''Request timeout after '' @ showNat (retries + 1)
                                    @ '' attempts''), failureStep env st2))
                      else if strIncludes msg ''Circuit breaker''
                              \<or> strIncludes msg ''Invalid feature IDs''
                      then (Inl msg, st2)
                      else if retries < MAX_RETRIES
                      then fetchFeaturesBatch env featureIds (retries + 1) st2
                      else (Inl msg, failureStep env st2))))"
  by pat_completeness auto
termination
  by (relation "measure (\<lambda>(env, featureIds, retries, st). MAX_RETRIES - retries)")
     (auto dest: tryBlock_RetryNow)

declare fetchFeaturesBatch.simps [simp del]

text \<open>The record that \<open>processBatch\<close> stores for a returned feature.\<close>

definition statusOfFeature :: "WebStatusFeature \<Rightarrow> BaselineStatus" where
  "statusOfFeature feature =
     (case wf_baseline feature of
        Some (s, lo, hi) \<Rightarrow> \<lparr> status = s, low_date = orUndefined lo, high_date = orUndefined hi \<rparr>
      | None \<Rightarrow> unknownStatus)"

text \<open>The loop of \<open>processBatch\<close> over the returned features: \<open>results\<close>, the cache and the set
  \<open>foundFeatureIds\<close>.\<close>

definition recordFeature ::
  "(string \<times> BaselineStatus) list \<times> (string \<rightharpoonup> BaselineStatus) \<times> string list
     \<Rightarrow> WebStatusFeature
     \<Rightarrow> (string \<times> BaselineStatus) list \<times> (string \<rightharpoonup> BaselineStatus) \<times> string list" where
  "recordFeature acc feature =
     (case acc of (results, cch, found) \<Rightarrow>
        if wf_id feature = [] then (results, cch, found)
        else (mapSet (wf_id feature) (statusOfFeature feature) results,
              cch(wf_id feature \<mapsto> statusOfFeature feature),
              wf_id feature # found))"

definition markUnknown ::
  "(string \<times> BaselineStatus) list \<times> (string \<rightharpoonup> BaselineStatus)
     \<Rightarrow> string \<Rightarrow> (string \<times> BaselineStatus) list \<times> (string \<rightharpoonup> BaselineStatus)" where
  "markUnknown acc ident =
     (case acc of (results, cch) \<Rightarrow> (mapSet ident unknownStatus results, cch(ident \<mapsto> unknownStatus)))"

definition processBatch ::
  "Env \<Rightarrow> string list \<Rightarrow> ClientState \<Rightarrow> (string \<times> BaselineStatus) list \<times> ClientState" where
  "processBatch env featureIds st =
     (if featureIds = [] then ([], st)
      else
        (case fetchFeaturesBatch env featureIds 0 st of
           (Inr features, st1) \<Rightarrow>
             (case foldl recordFeature ([], cache st1, []) features of
                (results, cch, found) \<Rightarrow>
                  (case foldl markUnknown (results, cch)
                          (filter (\<lambda>i. i \<notin> set found) featureIds) of
                     (results', cch') \<Rightarrow> (results', st1\<lparr> cache := cch' \<rparr>)))
         | (Inl msg, st1) \<Rightarrow>
             (case foldl markUnknown ([], cache st1) featureIds of
                (results', cch') \<Rightarrow> (results', st1\<lparr> cache := cch' \<rparr>))))"







section \<open>Notions for the statements about the resolver\<close>












section \<open>Base points and UA support factor\<close>

text \<open>
  C1 (amended). The scoring engine with UA weighting awards widely 2, newly 1, limited 0 and
  unknown 0 points; its \<open>getStatusPoints\<close> has no core parameter. The engine in
  core/computed/baseline/score.js awards widely 3, newly 2 (1.5 for a core feature),
  limited 0 (-1 for a core feature) and unknown 0.
\<close>

theorem C1_base_points:
  "getStatusPoints (statusName s) =
     (case s of Widely \<Rightarrow> 2 | Newly \<Rightarrow> 1 | Limited \<Rightarrow> 0 | Unknown \<Rightarrow> 0)
   \<and> getStatusPoints_scorejs (statusName s) core =
       (case s of Widely \<Rightarrow> 3 | Newly \<Rightarrow> (if core then 1.5 else 2)
                | Limited \<Rightarrow> (if core then - 1 else 0) | Unknown \<Rightarrow> 0)"
  by (cases s) (simp_all add: getStatusPoints_def getStatusPoints_scorejs_def)

text \<open>
  C1 as stated fails on score.js: a widely available feature gets 3 points, not 2, and the
  points of a limited feature depend on whether it is core.
\<close>

theorem C1_counterexample:
  "getStatusPoints_scorejs (statusName Widely) False = 3
   \<and> getStatusPoints_scorejs (statusName Widely) False \<noteq> 2
   \<and> getStatusPoints_scorejs (statusName Limited) True
       \<noteq> getStatusPoints_scorejs (statusName Limited) False"
  by (simp add: getStatusPoints_scorejs_def)

lemma uaSupportFactor_statusName:
  "uaSupportFactor (statusName s) ua =
     Some (case s of
             Widely \<Rightarrow> 1
           | Newly \<Rightarrow> max 0.5 (min 1.0 (0.8 - orZero (safari ua) * 0.2))
           | Limited \<Rightarrow> max 0.5 (min 1.0 (0.5 + (orZero (chrome ua) + orZero (edge ua)) * 0.5))
           | Unknown \<Rightarrow> 0.7)"
  by (cases s) (simp_all add: uaSupportFactor_def supportLevels_def Let_def)

lemma uaSupportFactor_limited:
  "uaSupportFactor ''limited'' ua =
     Some (max 0.5 (min 1.0 (0.5 + (orZero (chrome ua) + orZero (edge ua)) * 0.5)))"
  by (simp add: uaSupportFactor_def Let_def)

lemma uaSupportFactor_newly:
  "uaSupportFactor ''newly'' ua = Some (max 0.5 (min 1.0 (0.8 - orZero (safari ua) * 0.2)))"
  by (simp add: uaSupportFactor_def Let_def supportLevels_def)

lemma clamp_mono: "x \<le> y \<Longrightarrow> max a (min b (x::real)) \<le> max a (min b y)"
  by (simp add: max_def min_def)

lemma clamp_range: "0.5 \<le> max 0.5 (min 1.0 (x::real)) \<and> max 0.5 (min 1.0 (x::real)) \<le> 1.0"
  by (simp add: max_def min_def)

lemma uaSupportFactor_eq:
  "uaSupportFactor st ua =
     (if st = ''limited''
      then Some (max 0.5 (min 1.0 (0.5 + (orZero (chrome ua) + orZero (edge ua)) * 0.5)))
      else if st = ''newly'' then Some (max 0.5 (min 1.0 (0.8 - orZero (safari ua) * 0.2)))
      else if st = ''widely'' then Some 1
      else if st \<in> set objectPrototypeKeys then None
      else Some 0.7)"
  by (simp add: uaSupportFactor_def supportLevels_def Let_def objectPrototypeKeys_def
        max_def min_def del: map_option_eq_Some)

lemma uaSupportFactor_other:
  assumes "st \<notin> set objectPrototypeKeys"
  shows "\<exists>f. uaSupportFactor st ua = Some f \<and> 0.5 \<le> f \<and> f \<le> 1.0"
proof -
  consider "st = ''limited''" | "st = ''newly''" | "st = ''widely''"
    | "st \<noteq> ''limited''" "st \<noteq> ''newly''" "st \<noteq> ''widely''" by blast
  then show ?thesis
  proof cases
    case 1
    show ?thesis unfolding uaSupportFactor_eq using 1 by (simp add: max_def min_def)
  next
    case 2
    show ?thesis unfolding uaSupportFactor_eq using 2 by (simp add: max_def min_def)
  next
    case 3
    show ?thesis unfolding uaSupportFactor_eq using 3 by simp
  next
    case 4
    have "uaSupportFactor st ua = Some 0.7" unfolding uaSupportFactor_eq using 4 assms by simp
    then show ?thesis by (intro exI [of _ "0.7"]) simp
  qed
qed

lemma uaSupportFactor_inherited:
  "st \<in> set objectPrototypeKeys \<Longrightarrow> uaSupportFactor st ua = None"
  by (auto simp: uaSupportFactor_def supportLevels_def Let_def objectPrototypeKeys_def)

lemma uaSupportFactor_status_range:
  "\<exists>f. uaSupportFactor (statusName s) ua = Some f \<and> 0.5 \<le> f \<and> f \<le> 1.0"
  by (rule uaSupportFactor_other) (cases s; simp add: objectPrototypeKeys_def)

text \<open>
  C6. \<open>uaSupportFactor\<close> is monotone: for \<open>'limited'\<close> a larger combined chrome+edge share
  never gives a smaller factor, for \<open>'newly'\<close> a larger safari share never gives a larger
  factor, and for every status and distribution the factor is a number in [0.5, 1.0]. The
  same range holds for every other string that is not the name of a member inherited from
  \<open>Object.prototype\<close>; for such a name, which is not a status, the result is NaN.
\<close>

theorem C6_uaSupportFactor_monotone:
  "(orZero (chrome ua) + orZero (edge ua) \<le> orZero (chrome ua') + orZero (edge ua')
      \<longrightarrow> (\<exists>f f'. uaSupportFactor ''limited'' ua = Some f
                 \<and> uaSupportFactor ''limited'' ua' = Some f' \<and> f \<le> f'))
   \<and> (orZero (safari ua) \<le> orZero (safari ua')
      \<longrightarrow> (\<exists>f f'. uaSupportFactor ''newly'' ua = Some f
                 \<and> uaSupportFactor ''newly'' ua' = Some f' \<and> f' \<le> f))
   \<and> (\<exists>f. uaSupportFactor (statusName s) ua = Some f \<and> 0.5 \<le> f \<and> f \<le> 1.0)
   \<and> (st \<notin> set objectPrototypeKeys
      \<longrightarrow> (\<exists>f. uaSupportFactor st ua = Some f \<and> 0.5 \<le> f \<and> f \<le> 1.0))
   \<and> (st \<in> set objectPrototypeKeys \<longrightarrow> uaSupportFactor st ua = None)"
proof (intro conjI impI)
  assume "orZero (chrome ua) + orZero (edge ua) \<le> orZero (chrome ua') + orZero (edge ua')"
  then have "0.5 + (orZero (chrome ua) + orZero (edge ua)) * 0.5
               \<le> 0.5 + (orZero (chrome ua') + orZero (edge ua')) * 0.5"
    by simp
  then have "max 0.5 (min 1.0 (0.5 + (orZero (chrome ua) + orZero (edge ua)) * 0.5))
               \<le> max 0.5 (min 1.0 (0.5 + (orZero (chrome ua') + orZero (edge ua')) * 0.5))"
    by (rule clamp_mono)
  with uaSupportFactor_limited [of ua] uaSupportFactor_limited [of ua']
  show "\<exists>f f'. uaSupportFactor ''limited'' ua = Some f
           \<and> uaSupportFactor ''limited'' ua' = Some f' \<and> f \<le> f'"
    by blast
next
  assume "orZero (safari ua) \<le> orZero (safari ua')"
  then have "0.8 - orZero (safari ua') * 0.2 \<le> 0.8 - orZero (safari ua) * 0.2"
    by simp
  then have "max 0.5 (min 1.0 (0.8 - orZero (safari ua') * 0.2))
               \<le> max 0.5 (min 1.0 (0.8 - orZero (safari ua) * 0.2))"
    by (rule clamp_mono)
  with uaSupportFactor_newly [of ua] uaSupportFactor_newly [of ua']
  show "\<exists>f f'. uaSupportFactor ''newly'' ua = Some f
           \<and> uaSupportFactor ''newly'' ua' = Some f' \<and> f' \<le> f"
    by blast
next
  show "\<exists>f. uaSupportFactor (statusName s) ua = Some f \<and> 0.5 \<le> f \<and> f \<le> 1.0"
    by (rule uaSupportFactor_status_range)
next
  assume "st \<notin> set objectPrototypeKeys"
  then show "\<exists>f. uaSupportFactor st ua = Some f \<and> 0.5 \<le> f \<and> f \<le> 1.0"
    by (rule uaSupportFactor_other)
next
  assume "st \<in> set objectPrototypeKeys"
  then show "uaSupportFactor st ua = None"
    by (rule uaSupportFactor_inherited)
qed

theorem C6_uaSupportFactor_monotone_witness:
  "(\<exists>f f'. uaSupportFactor ''limited''
              \<lparr> safari = Some 0.7, chrome = Some 0.1, firefox = Some 0.1, edge = Some 0.1 \<rparr> = Some f
          \<and> uaSupportFactor ''limited''
              \<lparr> safari = Some 0.1, chrome = Some 0.7, firefox = Some 0.1, edge = Some 0.1 \<rparr> = Some f'
          \<and> f \<le> f')
   \<and> (\<exists>f f'. uaSupportFactor ''newly''
              \<lparr> safari = Some 0.1, chrome = Some 0.7, firefox = Some 0.1, edge = Some 0.1 \<rparr> = Some f
          \<and> uaSupportFactor ''newly''
              \<lparr> safari = Some 0.7, chrome = Some 0.1, firefox = Some 0.1, edge = Some 0.1 \<rparr> = Some f'
          \<and> f' \<le> f)
   \<and> (\<exists>f. uaSupportFactor ''WIDELY''
              \<lparr> safari = Some 0.7, chrome = Some 0.1, firefox = Some 0.1, edge = Some 0.1 \<rparr> = Some f
          \<and> 0.5 \<le> f \<and> f \<le> 1.0)
   \<and> uaSupportFactor ''constructor''
          \<lparr> safari = Some 0.1, chrome = Some 0.7, firefox = Some 0.1, edge = Some 0.1 \<rparr> = None"
  using C6_uaSupportFactor_monotone
          [of "\<lparr> safari = Some 0.7, chrome = Some 0.1, firefox = Some 0.1, edge = Some 0.1 \<rparr>"
              "\<lparr> safari = Some 0.1, chrome = Some 0.7, firefox = Some 0.1, edge = Some 0.1 \<rparr>"
              Limited "''WIDELY''"]
        C6_uaSupportFactor_monotone
          [of "\<lparr> safari = Some 0.1, chrome = Some 0.7, firefox = Some 0.1, edge = Some 0.1 \<rparr>"
              "\<lparr> safari = Some 0.7, chrome = Some 0.1, firefox = Some 0.1, edge = Some 0.1 \<rparr>"
              Newly "''constructor''"]
  by (simp add: orZero_def objectPrototypeKeys_def)

section \<open>The empty status map\<close>

text \<open>
  C10. For an empty status map both scoring engines return \<open>score01 = 1\<close> and
  \<open>numeric100 = 100\<close>, no rows, and the zero-features warning as the only warning.
\<close>

theorem C10_empty_map_perfect_score:
  "calculateScore localeCompare [] tokens tokenToFeatureMap usageData uaDistribution =
     \<lparr> score01 = 1, numeric100 = 100, rows = [],
       warnings = [''No Web Platform features detected''] \<rparr>
   \<and> calculateScore_scorejs [] tokens usageData =
     \<lparr> score01 = 1, numeric100 = 100, rows = [],
       warnings = [''No Web Platform features detected''] \<rparr>"
  by (simp add: calculateScore_def calculateScore_scorejs_def emptyAcc_def
        calculateProgressiveEnhancementBonus_def sortBy_def mathRound_def)

section \<open>Budget scenario\<close>

lemma mathRound_of_int: "mathRound (real_of_int z) = z"
  unfolding mathRound_def by linarith

lemma mathRound_90_95: "mathRound 90 = 90" "mathRound 95 = 95"
  using mathRound_of_int [of 90] mathRound_of_int [of 95] by simp_all

lemma showNat_1: "showNat (Suc 0) = ''1''"
  by (simp add: showNat.simps digitChar_def)

lemma showInt_90_95: "showInt 90 = ''90''" "showInt 95 = ''95''"
  by (simp_all add: showInt_def showNat.simps digitChar_def)

lemma normalizePolicy_api:
  "normalizePolicy
     (JObj [(''minScore'', JNum 0.80),
            (''perRoute'', JObj [(''/api'', JObj [(''minScore'', JNum 0.95),
                                                 (''forbidLimited'', JBool True)])])])
   = Some \<lparr> minScore = Some 0.8, forbidLimited = False, allowUnknown = True,
            perRoute = [(''/api'', \<lparr> routeMinScore = Some 0.95,
                                     routeForbidLimited = Some True \<rparr>)] \<rparr>"
  by (simp add: normalizePolicy_def normalizeRoute_def clampScore_def Let_def)

lemma list_ex_filter: "list_ex P xs = (filter P xs \<noteq> [])"
  by (induction xs) auto

lemma evaluateBudgets_api:
  assumes "length (filter (\<lambda>r. rstatus r = ''limited'') rws) = 1"
  shows "evaluateBudgets
      \<lparr> minScore = Some 0.8, forbidLimited = False, allowUnknown = True,
        perRoute = [(''/api'', \<lparr> routeMinScore = Some 0.95, routeForbidLimited = Some True \<rparr>)] \<rparr>
      ''/api'' 0.90 rws
     = \<lparr> violated = True,
         reasons = [''score 90% < 95%'', ''1 limited feature present on route /api''] \<rparr>"
proof -
  from assms have ex: "list_ex (\<lambda>r. rstatus r = ''limited'') rws"
    by (auto simp: list_ex_filter)
  show ?thesis
    unfolding evaluateBudgets_def Let_def
    using assms ex
    by (simp add: mathRound_90_95 showInt_90_95 showNat_1 pluralS_def appendToLast_def
          del: of_nat_Suc not_None_eq)
qed

text \<open>
  C7. The policy file \<open>{minScore: 0.80, perRoute: {'/api': {minScore: 0.95, forbidLimited: true}}}\<close>
  is normalized, and for route \<open>/api\<close>, a score of 0.90 and any row list with exactly one
  \<open>'limited'\<close> row the evaluation is violated with exactly two reasons: the score reason from
  the per-route minimum and the limited-feature reason from the per-route \<open>forbidLimited\<close>.
\<close>

theorem C7_per_route_budget:
  assumes "length (filter (\<lambda>r. rstatus r = ''limited'') rws) = 1"
  shows "map_option (\<lambda>policy. evaluateBudgets policy ''/api'' 0.90 rws)
           (normalizePolicy
              (JObj [(''minScore'', JNum 0.80),
                     (''perRoute'', JObj [(''/api'', JObj [(''minScore'', JNum 0.95),
                                                          (''forbidLimited'', JBool True)])])]))
         = Some \<lparr> violated = True,
                  reasons = [''score 90% < 95%'', ''1 limited feature present on route /api''] \<rparr>"
  unfolding normalizePolicy_api option.map
  by (simp only: evaluateBudgets_api [OF assms])

theorem C7_per_route_budget_witness:
  "length (filter (\<lambda>r. rstatus r = ''limited'')
      [\<lparr> feature_id = ''has'', rstatus = ''limited'', weight = None, isCore = False,
         rowOrigin = None \<rparr>]) = 1
   \<and> evaluateBudgets
      \<lparr> minScore = Some 0.8, forbidLimited = False, allowUnknown = True,
        perRoute = [(''/api'', \<lparr> routeMinScore = Some 0.95, routeForbidLimited = Some True \<rparr>)] \<rparr>
      ''/api'' 0.90
      [\<lparr> feature_id = ''has'', rstatus = ''limited'', weight = None, isCore = False,
         rowOrigin = None \<rparr>]
     = \<lparr> violated = True,
         reasons = [''score 90% < 95%'', ''1 limited feature present on route /api''] \<rparr>"
proof -
  have h: "length (filter (\<lambda>r. rstatus r = ''limited'')
      [\<lparr> feature_id = ''has'', rstatus = ''limited'', weight = None, isCore = False,
         rowOrigin = None \<rparr>]) = 1" by simp
  from C7_per_route_budget [OF h] h show ?thesis
    unfolding normalizePolicy_api option.map by blast
qed

section \<open>Diff scenario\<close>

text \<open>
  C8. For the base report \<open>[grid: Widely, flexbox: Widely]\<close> with score 0.90 and the head
  report \<open>[grid: Widely, flexbox: Newly]\<close> with score 0.85, all weights missing, the diff has
  \<open>scoreDelta = -0.05\<close>, the single downgrade of flexbox from widely to newly, and no new
  limited feature.
\<close>

theorem C8_diff_scenario:
  "main
     (Some \<lparr> audit_score = 0.90, audit_items = Some
        [\<lparr> item_id = ''grid'', item_status = Some ''Widely'', item_weight = None \<rparr>,
         \<lparr> item_id = ''flexbox'', item_status = Some ''Widely'', item_weight = None \<rparr>] \<rparr>)
     (Some \<lparr> audit_score = 0.85, audit_items = Some
        [\<lparr> item_id = ''grid'', item_status = Some ''Widely'', item_weight = None \<rparr>,
         \<lparr> item_id = ''flexbox'', item_status = Some ''Newly'', item_weight = None \<rparr>] \<rparr>)
   = Inr \<lparr> scoreDelta = - 0.05,
           newLimited = [],
           downgrades = [\<lparr> dg_feature = ''flexbox'', dg_from = Some ''widely'',
                           dg_to = Some ''newly'' \<rparr>],
           topContributors = [(''flexbox'', - 1)] \<rparr>"
  by (simp add: main_def extractBaselineData_def buildFeatureMap_def toLowerCase_def
        toLowerChar_def findNewLimited_def findDowngrades_def findTopContributors_def
        mapGet_def statusRank_def statusPointsTimes_def orOne_def sortBy_def toFixed3_def
        Let_def)

section \<open>Circuit breaker state machine\<close>

lemma runOps_snoc: "runOps (ops @ [op]) cb = applyOp op (runOps ops cb)"
  by (simp add: runOps_def)

lemma failures_from_initial:
  "failureCount (runOps (map Failure ts) initialBreaker) = length ts
   \<and> state (runOps (map Failure ts) initialBreaker) = (if length ts \<ge> 5 then Open else Closed)"
proof (induction ts rule: rev_induct)
  case Nil
  show ?case by (simp add: runOps_def initialBreaker_def)
next
  case (snoc t ts)
  then show ?case
    by (simp add: runOps_snoc recordFailure_def Let_def CIRCUIT_BREAKER_THRESHOLD_def)
qed

lemma applyOp_closed_iff:
  "(state cb = Closed) = (failureCount cb < 5) \<Longrightarrow>
   (state (applyOp op cb) = Closed) = (failureCount (applyOp op cb) < 5)"
  by (cases op) (auto simp: shouldAllowRequest_def recordSuccess_def recordFailure_def Let_def
       CIRCUIT_BREAKER_THRESHOLD_def)

lemma runOps_closed_iff:
  "(state (runOps ops initialBreaker) = Closed) = (failureCount (runOps ops initialBreaker) < 5)"
proof (induction ops rule: rev_induct)
  case Nil
  show ?case by (simp add: runOps_def initialBreaker_def)
next
  case (snoc op ops)
  show ?case unfolding runOps_snoc by (rule applyOp_closed_iff) (rule snoc.IH)
qed

lemma failureTimes_append: "failureTimes (xs @ ys) = failureTimes xs @ failureTimes ys"
  by (induction xs rule: failureTimes.induct) simp_all

lemma lastFailureAt_snoc:
  "lastFailureAt (ops @ [op]) = (case op of Failure t \<Rightarrow> t | _ \<Rightarrow> lastFailureAt ops)"
  by (cases op) (simp_all add: lastFailureAt_def failureTimes_append)

lemma consecutiveFailures_snoc:
  "consecutiveFailures (ops @ [op]) =
     (case op of Failure t \<Rightarrow> consecutiveFailures ops + 1
               | Success \<Rightarrow> 0
               | Allow t \<Rightarrow> consecutiveFailures ops)"
  by (cases op) (simp_all add: consecutiveFailures_def failureTimes_append)

lemma applyOp_fields:
  "failureCount (applyOp op cb) =
     (case op of Failure t \<Rightarrow> failureCount cb + 1 | Success \<Rightarrow> 0 | Allow t \<Rightarrow> failureCount cb)"
  "lastFailureTime (applyOp op cb) =
     (case op of Failure t \<Rightarrow> t | _ \<Rightarrow> lastFailureTime cb)"
  by (cases op; simp add: shouldAllowRequest_def recordSuccess_def recordFailure_def Let_def)+

lemma runOps_history:
  "failureCount (runOps ops initialBreaker) = consecutiveFailures ops
   \<and> lastFailureTime (runOps ops initialBreaker) = lastFailureAt ops"
proof (induction ops rule: rev_induct)
  case Nil
  show ?case
    by (simp add: runOps_def initialBreaker_def consecutiveFailures_def lastFailureAt_def)
next
  case (snoc op ops)
  then show ?case
    unfolding runOps_snoc applyOp_fields lastFailureAt_snoc consecutiveFailures_snoc
    by (cases op) simp_all
qed

lemma breaker_transitions:
  assumes "cb = runOps ops initialBreaker"
  shows "state (applyOp op cb) = state cb
     \<or> (state cb = Closed \<and> state (applyOp op cb) = Open
          \<and> (\<exists>t. op = Failure t) \<and> failureCount cb = 4)
     \<or> (state cb = Open \<and> state (applyOp op cb) = HalfOpen
          \<and> (\<exists>t. op = Allow t \<and> t - lastFailureTime cb > 30000))
     \<or> (state cb = HalfOpen \<and> state (applyOp op cb) = Closed \<and> op = Success)
     \<or> (state cb = HalfOpen \<and> state (applyOp op cb) = Open \<and> (\<exists>t. op = Failure t))
     \<or> (state cb = Open \<and> state (applyOp op cb) = Closed \<and> op = Success)"
proof -
  have inv: "(state cb = Closed) = (failureCount cb < 5)"
    using assms runOps_closed_iff by simp
  show ?thesis
  proof (cases op)
    case (Allow t)
    then show ?thesis
      by (cases "state cb") (auto simp: shouldAllowRequest_def CIRCUIT_BREAKER_TIMEOUT_def)
  next
    case Success
    then show ?thesis
      by (cases "state cb") (auto simp: recordSuccess_def)
  next
    case (Failure t)
    then show ?thesis using inv
      by (cases "state cb") (auto simp: recordFailure_def Let_def CIRCUIT_BREAKER_THRESHOLD_def)
  qed
qed

text \<open>
  C2 (amended). Starting Closed with \<open>failureCount = 0\<close>, the breaker is Open after a run of
  \<open>recordFailure\<close> calls exactly when the run has at least five of them. For a breaker
  reached by any sequence of the three operations: \<open>failureCount\<close> is the number of
  \<open>recordFailure\<close> calls since the last \<open>recordSuccess\<close>, the breaker is Closed exactly when
  that number is below 5, and \<open>lastFailureTime\<close> is the time of the last \<open>recordFailure\<close>;
  \<open>recordFailure\<close> adds one to the count, stamps the time, and opens the breaker when the count
  reaches 5. While Open, \<open>shouldAllowRequest\<close> returns false and changes nothing as long as at
  most 30000 ms have passed since the last \<open>recordFailure\<close>, and returns true and enters
  HalfOpen once more have passed; while HalfOpen, every call of \<open>shouldAllowRequest\<close> returns
  true and leaves the state HalfOpen, and \<open>recordFailure\<close> returns it to Open; while Closed it
  returns true; \<open>recordSuccess\<close> gives Closed with \<open>failureCount = 0\<close> and leaves the time.
  The only state changes are Closed to Open (the failure that makes the count 5), Open to
  HalfOpen, HalfOpen to Closed, HalfOpen to Open, and Open to Closed when \<open>recordSuccess\<close>
  runs while Open.
\<close>

theorem C2_breaker_state_machine:
  assumes "cb = runOps ops initialBreaker"
  shows "state (runOps (map Failure ts) initialBreaker) = (if length ts \<ge> 5 then Open else Closed)
     \<and> failureCount cb = consecutiveFailures ops
     \<and> (state cb = Closed) = (consecutiveFailures ops < 5)
     \<and> lastFailureTime cb = lastFailureAt ops
     \<and> recordFailure now cb
          = \<lparr> failureCount = consecutiveFailures ops + 1, lastFailureTime = now,
              state = (if consecutiveFailures ops + 1 \<ge> 5 then Open else state cb) \<rparr>
     \<and> (state cb = Open \<longrightarrow>
          shouldAllowRequest now cb =
            (if now - lastFailureAt ops > 30000 then (True, cb\<lparr> state := HalfOpen \<rparr>)
             else (False, cb)))
     \<and> (state cb = HalfOpen \<longrightarrow>
          shouldAllowRequest now cb = (True, cb) \<and> state (recordFailure now cb) = Open)
     \<and> (state cb = Closed \<longrightarrow> shouldAllowRequest now cb = (True, cb))
     \<and> recordSuccess cb = cb\<lparr> failureCount := 0, state := Closed \<rparr>
     \<and> (state (applyOp op cb) = state cb
         \<or> (state cb = Closed \<and> state (applyOp op cb) = Open
              \<and> (\<exists>t. op = Failure t) \<and> consecutiveFailures ops = 4)
         \<or> (state cb = Open \<and> state (applyOp op cb) = HalfOpen
              \<and> (\<exists>t. op = Allow t \<and> t - lastFailureAt ops > 30000))
         \<or> (state cb = HalfOpen \<and> state (applyOp op cb) = Closed \<and> op = Success)
         \<or> (state cb = HalfOpen \<and> state (applyOp op cb) = Open \<and> (\<exists>t. op = Failure t))
         \<or> (state cb = Open \<and> state (applyOp op cb) = Closed \<and> op = Success))"
proof -
  have fc: "failureCount cb = consecutiveFailures ops"
    and lf: "lastFailureTime cb = lastFailureAt ops"
    using assms runOps_history by simp_all
  have inv: "(state cb = Closed) = (failureCount cb < 5)"
    using assms runOps_closed_iff by simp
  have a: "state (runOps (map Failure ts) initialBreaker) = (if length ts \<ge> 5 then Open else Closed)"
    using failures_from_initial by blast
  have i: "(state cb = Closed) = (consecutiveFailures ops < 5)"
    using inv fc by simp
  have f: "recordFailure now cb
          = \<lparr> failureCount = consecutiveFailures ops + 1, lastFailureTime = now,
              state = (if consecutiveFailures ops + 1 \<ge> 5 then Open else state cb) \<rparr>"
    using fc by (simp add: recordFailure_def Let_def CIRCUIT_BREAKER_THRESHOLD_def)
  have b: "state cb = Open \<longrightarrow>
          shouldAllowRequest now cb =
            (if now - lastFailureAt ops > 30000 then (True, cb\<lparr> state := HalfOpen \<rparr>)
             else (False, cb))"
    using lf by (simp add: shouldAllowRequest_def CIRCUIT_BREAKER_TIMEOUT_def)
  have c: "state cb = HalfOpen \<longrightarrow>
          shouldAllowRequest now cb = (True, cb) \<and> state (recordFailure now cb) = Open"
    using inv by (auto simp: shouldAllowRequest_def recordFailure_def Let_def
        CIRCUIT_BREAKER_THRESHOLD_def)
  have c': "state cb = Closed \<longrightarrow> shouldAllowRequest now cb = (True, cb)"
    by (simp add: shouldAllowRequest_def)
  have d: "recordSuccess cb = cb\<lparr> failureCount := 0, state := Closed \<rparr>"
    by (simp add: recordSuccess_def)
  have t: "state (applyOp op cb) = state cb
         \<or> (state cb = Closed \<and> state (applyOp op cb) = Open
              \<and> (\<exists>t. op = Failure t) \<and> consecutiveFailures ops = 4)
         \<or> (state cb = Open \<and> state (applyOp op cb) = HalfOpen
              \<and> (\<exists>t. op = Allow t \<and> t - lastFailureAt ops > 30000))
         \<or> (state cb = HalfOpen \<and> state (applyOp op cb) = Closed \<and> op = Success)
         \<or> (state cb = HalfOpen \<and> state (applyOp op cb) = Open \<and> (\<exists>t. op = Failure t))
         \<or> (state cb = Open \<and> state (applyOp op cb) = Closed \<and> op = Success)"
    using breaker_transitions [OF assms, of op] unfolding fc lf .
  from a fc i lf f b c c' d t show ?thesis by blast
qed


lemma five_failures:
  "runOps [Failure 100, Failure 200, Failure 300, Failure 400, Failure 1000] initialBreaker
     = \<lparr> failureCount = 5, lastFailureTime = 1000, state = Open \<rparr>"
  by (simp add: runOps_def initialBreaker_def recordFailure_def Let_def
        CIRCUIT_BREAKER_THRESHOLD_def)

lemma five_failures_allow:
  "runOps [Failure 100, Failure 200, Failure 300, Failure 400, Failure 1000, Allow 31001]
       initialBreaker
     = \<lparr> failureCount = 5, lastFailureTime = 1000, state = HalfOpen \<rparr>"
  by (simp add: runOps_def initialBreaker_def recordFailure_def Let_def
        CIRCUIT_BREAKER_THRESHOLD_def shouldAllowRequest_def CIRCUIT_BREAKER_TIMEOUT_def)

lemma four_failures_success:
  "runOps [Failure 100, Failure 200, Failure 300, Failure 400, Success] initialBreaker
     = \<lparr> failureCount = 0, lastFailureTime = 400, state = Closed \<rparr>"
  by (simp add: runOps_def initialBreaker_def recordFailure_def Let_def
        CIRCUIT_BREAKER_THRESHOLD_def recordSuccess_def)

theorem C2_breaker_state_machine_witness:
  "shouldAllowRequest 31000 \<lparr> failureCount = 5, lastFailureTime = 1000, state = Open \<rparr>
     = (False, \<lparr> failureCount = 5, lastFailureTime = 1000, state = Open \<rparr>)
   \<and> shouldAllowRequest 31001 \<lparr> failureCount = 5, lastFailureTime = 1000, state = Open \<rparr>
     = (True, \<lparr> failureCount = 5, lastFailureTime = 1000, state = HalfOpen \<rparr>)
   \<and> shouldAllowRequest 31002 \<lparr> failureCount = 5, lastFailureTime = 1000, state = HalfOpen \<rparr>
     = (True, \<lparr> failureCount = 5, lastFailureTime = 1000, state = HalfOpen \<rparr>)
   \<and> recordFailure 31002 \<lparr> failureCount = 5, lastFailureTime = 1000, state = HalfOpen \<rparr>
     = \<lparr> failureCount = 6, lastFailureTime = 31002, state = Open \<rparr>
   \<and> recordFailure 500 \<lparr> failureCount = 0, lastFailureTime = 400, state = Closed \<rparr>
     = \<lparr> failureCount = 1, lastFailureTime = 500, state = Closed \<rparr>
   \<and> shouldAllowRequest 500 \<lparr> failureCount = 0, lastFailureTime = 400, state = Closed \<rparr>
     = (True, \<lparr> failureCount = 0, lastFailureTime = 400, state = Closed \<rparr>)"
  using C2_breaker_state_machine [OF five_failures [symmetric], of "[]" 31000 Success]
        C2_breaker_state_machine [OF five_failures [symmetric], of "[]" 31001 Success]
        C2_breaker_state_machine [OF five_failures_allow [symmetric], of "[]" 31002 Success]
        C2_breaker_state_machine [OF four_failures_success [symmetric], of "[]" 500 Success]
  by (simp add: lastFailureAt_def consecutiveFailures_def)

text \<open>
  C2 as stated fails: after the cool-down the breaker answers true to three calls of
  \<open>shouldAllowRequest\<close> in a row, not exactly once, and an Open breaker goes straight to
  Closed on \<open>recordSuccess\<close>.
\<close>

theorem C2_counterexample:
  "(let cb = runOps (map Failure [0, 0, 0, 0, 0]) initialBreaker;
        r1 = shouldAllowRequest 30001 cb;
        r2 = shouldAllowRequest 30002 (snd r1);
        r3 = shouldAllowRequest 30003 (snd r2)
    in state cb = Open \<and> fst r1 \<and> state (snd r1) = HalfOpen
       \<and> fst r2 \<and> state (snd r2) = HalfOpen
       \<and> fst r3 \<and> state (snd r3) = HalfOpen
       \<and> state (recordSuccess cb) = Closed)"
  by (simp add: runOps_def initialBreaker_def recordFailure_def CIRCUIT_BREAKER_THRESHOLD_def
        shouldAllowRequest_def recordSuccess_def Let_def CIRCUIT_BREAKER_TIMEOUT_def)

section \<open>Row order\<close>

lemma accRows_foldl:
  "accRows (foldl (scoreStep t m u ua) acc fs) = accRows acc @ map (rowOf t m u ua) fs"
  by (induction fs arbitrary: acc) (simp_all add: scoreStep_def rowOf_def Let_def)

lemma rows_calculateScore:
  "rows (calculateScore lc fs t m u ua) = sortBy (compareRows lc) (map (rowOf t m u ua) fs)"
  by (simp add: calculateScore_def Let_def accRows_foldl emptyAcc_def)

lemma mset_insertBy: "mset (insertBy cmp x xs) = add_mset x (mset xs)"
  by (induction xs) auto

lemma mset_sortBy: "mset (sortBy cmp xs) = mset xs"
  unfolding sortBy_def by (induction xs) (auto simp: mset_insertBy)

lemma set_insertBy: "set (insertBy cmp x xs) = insert x (set xs)"
  by (induction xs) auto

lemma set_sortBy: "set (sortBy cmp xs) = set xs"
  unfolding sortBy_def by (induction xs) (auto simp: set_insertBy)

lemma sorted_insertBy:
  assumes tot: "\<And>a b. a \<in> A \<Longrightarrow> b \<in> A \<Longrightarrow> cmp a b \<le> 0 \<or> cmp b a \<le> 0"
    and tr: "\<And>a b c. a \<in> A \<Longrightarrow> b \<in> A \<Longrightarrow> c \<in> A \<Longrightarrow> cmp a b \<le> 0 \<Longrightarrow> cmp b c \<le> 0 \<Longrightarrow> cmp a c \<le> 0"
    and "x \<in> A" "set xs \<subseteq> A" "sorted_wrt (\<lambda>a b. cmp a b \<le> 0) xs"
  shows "sorted_wrt (\<lambda>a b. cmp a b \<le> 0) (insertBy cmp x xs)"
  using assms(3-)
proof (induction xs)
  case Nil
  then show ?case by simp
next
  case (Cons y ys)
  show ?case
  proof (cases "cmp x y \<le> 0")
    case True
    have "\<forall>z\<in>set ys. cmp x z \<le> 0"
    proof
      fix z assume z: "z \<in> set ys"
      with Cons.prems have "cmp y z \<le> 0" by simp
      with True show "cmp x z \<le> 0" using tr [of x y z] Cons.prems z by auto
    qed
    with True Cons.prems show ?thesis by simp
  next
    case False
    with tot [of x y] Cons.prems have yx: "cmp y x \<le> 0" by auto
    have "sorted_wrt (\<lambda>a b. cmp a b \<le> 0) (insertBy cmp x ys)"
      using Cons.IH Cons.prems by simp
    with False yx Cons.prems show ?thesis by (simp add: set_insertBy)
  qed
qed

lemma sorted_sortBy:
  assumes tot: "\<And>a b. a \<in> A \<Longrightarrow> b \<in> A \<Longrightarrow> cmp a b \<le> 0 \<or> cmp b a \<le> 0"
    and tr: "\<And>a b c. a \<in> A \<Longrightarrow> b \<in> A \<Longrightarrow> c \<in> A \<Longrightarrow> cmp a b \<le> 0 \<Longrightarrow> cmp b c \<le> 0 \<Longrightarrow> cmp a c \<le> 0"
    and "set xs \<subseteq> A"
  shows "sorted_wrt (\<lambda>a b. cmp a b \<le> 0) (sortBy cmp xs)"
  using assms(3)
proof (induction xs)
  case Nil
  show ?case by (simp add: sortBy_def)
next
  case (Cons x xs)
  have "sorted_wrt (\<lambda>a b. cmp a b \<le> 0) (insertBy cmp x (sortBy cmp xs))"
  proof (rule sorted_insertBy [where A = A])
    show "x \<in> A" using Cons.prems by simp
    show "set (sortBy cmp xs) \<subseteq> A" using Cons.prems by (simp add: set_sortBy)
    show "sorted_wrt (\<lambda>a b. cmp a b \<le> 0) (sortBy cmp xs)" using Cons by simp
  qed (use tot tr in blast)+
  then show ?case by (simp add: sortBy_def)
qed

lemma sorted_wrt_unique:
  assumes anti: "\<And>a b. a \<in> set xs \<Longrightarrow> b \<in> set xs \<Longrightarrow> le a b \<Longrightarrow> le b a \<Longrightarrow> a = b"
    and "sorted_wrt le xs" "sorted_wrt le ys" "mset xs = mset ys"
  shows "xs = ys"
  using assms
proof (induction xs arbitrary: ys)
  case Nil
  then show ?case by simp
next
  case (Cons x xs)
  from Cons.prems(4) obtain y ys' where ys: "ys = y # ys'"
    by (cases ys) auto
  have sets: "set (x # xs) = set ys" using Cons.prems(4) by (metis set_mset_mset)
  have "x = y"
  proof (rule ccontr)
    assume ne: "x \<noteq> y"
    with sets ys have mem: "x \<in> set ys'" "y \<in> set xs" by auto
    with Cons.prems(2,3) ys have "le y x" "le x y" by auto
    with Cons.prems(1) [of x y] mem ne show False by auto
  qed
  moreover have "xs = ys'"
  proof (rule Cons.IH)
    show "sorted_wrt le xs" using Cons.prems(2) by simp
    show "sorted_wrt le ys'" using Cons.prems(3) ys by simp
    show "mset xs = mset ys'" using Cons.prems(4) ys \<open>x = y\<close> by simp
    show "\<And>a b. a \<in> set xs \<Longrightarrow> b \<in> set xs \<Longrightarrow> le a b \<Longrightarrow> le b a \<Longrightarrow> a = b"
      using Cons.prems(1) by simp
  qed
  ultimately show ?case using ys by simp
qed

lemma statusOrder_statusName:
  "statusOrder (statusName s) = Some (real (specStatusRank (statusName s)))"
  by (cases s) (simp_all add: statusOrder_def specStatusRank_def)

lemma orOne_rowWeight: "weight r \<noteq> Some 0 \<Longrightarrow> orOne (weight r) = rowWeight r"
  by (auto simp: orOne_def rowWeight_def split: option.splits)

lemma compareRows_le_iff:
  assumes "rstatus a = statusName sa" "rstatus b = statusName sb"
    and "weight a \<noteq> Some 0" "weight b \<noteq> Some 0"
  shows "(compareRows lc a b \<le> 0) = specRowOrder lc a b"
  using assms
  by (auto simp: compareRows_def statusOrder_statusName orOne_rowWeight Let_def specRowOrder_def)

lemma featureWeight_range: "0.5 \<le> featureWeight f s t m u ua \<and> featureWeight f s t m u ua \<le> 1.5"
  by (simp add: featureWeight_def Let_def max_def min_def)

lemma rowOf_simps:
  "feature_id (rowOf t m u ua e) = fst e"
  "rstatus (rowOf t m u ua e) = statusName (status (snd e))"
  "weight (rowOf t m u ua e) \<noteq> Some 0"
  "rowWeight (rowOf t m u ua e) = featureWeight (fst e) (status (snd e)) t m u ua"
  using featureWeight_range [of "fst e" "status (snd e)" t m u ua]
  by (auto simp: rowOf_def Let_def rowWeight_def)

lemma specRowOrder_total:
  assumes "collatesOn S lc" "feature_id a \<in> S" "feature_id b \<in> S"
  shows "specRowOrder lc a b \<or> specRowOrder lc b a"
  using assms unfolding specRowOrder_def collatesOn_def
  by (metis linorder_less_linear)

lemma specRowOrder_trans:
  assumes "collatesOn S lc" "feature_id a \<in> S" "feature_id b \<in> S" "feature_id c \<in> S"
    and "specRowOrder lc a b" "specRowOrder lc b c"
  shows "specRowOrder lc a c"
proof -
  from assms(1-4) have tr: "lc (feature_id a) (feature_id b) \<le> 0 \<Longrightarrow>
      lc (feature_id b) (feature_id c) \<le> 0 \<Longrightarrow> lc (feature_id a) (feature_id c) \<le> 0"
    unfolding collatesOn_def by blast
  from assms(5,6) tr show ?thesis
    unfolding specRowOrder_def by (auto dest: less_trans)
qed

lemma specRowOrder_antisym:
  assumes "collatesOn S lc" "feature_id a \<in> S" "feature_id b \<in> S"
    and "specRowOrder lc a b" "specRowOrder lc b a"
  shows "feature_id a = feature_id b"
proof -
  from assms(4,5) have "lc (feature_id a) (feature_id b) \<le> 0" "lc (feature_id b) (feature_id a) \<le> 0"
    unfolding specRowOrder_def by auto
  with assms(1-3) show ?thesis unfolding collatesOn_def by blast
qed

lemma accRows_foldl_scorejs:
  "accRows (foldl (scoreStep_scorejs t u) acc fs) = accRows acc @ map (rowOf_scorejs t u) fs"
  by (induction fs arbitrary: acc) (simp_all add: scoreStep_scorejs_def rowOf_scorejs_def Let_def)

lemma rows_calculateScore_scorejs:
  "rows (calculateScore_scorejs fs t u) = sortBy compareRows_scorejs (map (rowOf_scorejs t u) fs)"
  by (simp add: calculateScore_scorejs_def Let_def accRows_foldl_scorejs emptyAcc_def)

lemma weight_scorejs_range:
  "0.3 \<le> calculateUsageWeight_scorejs f u t \<and> calculateUsageWeight_scorejs f u t \<le> 2.0"
  by (simp add: calculateUsageWeight_scorejs_def Let_def max_def min_def)

lemma rowOf_scorejs_simps:
  "rstatus (rowOf_scorejs t u e) = statusName (status (snd e))"
  "weight (rowOf_scorejs t u e) \<noteq> Some 0"
  "rowWeight (rowOf_scorejs t u e) = calculateUsageWeight_scorejs (fst e) u t"
  using weight_scorejs_range [of "fst e" u t]
  by (auto simp: rowOf_scorejs_def Let_def rowWeight_def)

lemma compareRows_scorejs_le_iff:
  assumes "rstatus a = statusName sa" "rstatus b = statusName sb"
    and "weight a \<noteq> Some 0" "weight b \<noteq> Some 0"
  shows "(compareRows_scorejs a b \<le> 0) = scorejsRowOrder a b"
  using assms
  by (cases sa; cases sb)
     (auto simp: compareRows_scorejs_def statusOrder_scorejs_def orOne_rowWeight Let_def
        scorejsRowOrder_def scorejsClass_def)

lemma rowOf_mem:
  assumes "a \<in> set (map (rowOf t m u ua) fs)"
  obtains e where "e \<in> set fs" "a = rowOf t m u ua e"
  using assms by auto

lemma compareRows_spec_on_rows:
  assumes "a \<in> set (map (rowOf t m u ua) fs)" "b \<in> set (map (rowOf t m u ua) fs)"
  shows "(compareRows lc a b \<le> 0) = specRowOrder lc a b"
proof -
  from assms obtain ea eb where "a = rowOf t m u ua ea" "b = rowOf t m u ua eb" by auto
  then show ?thesis
    by (simp add: compareRows_le_iff [where sa = "status (snd ea)" and sb = "status (snd eb)"]
          rowOf_simps)
qed

lemma sorted_rows_calculateScore:
  assumes coll: "collatesOn (fst ` set fs) lc"
  shows "sorted_wrt (specRowOrder lc) (rows (calculateScore lc fs t m u ua))"
proof -
  let ?R = "map (rowOf t m u ua) fs"
  have ids: "\<And>a. a \<in> set ?R \<Longrightarrow> feature_id a \<in> fst ` set fs"
    by (force simp: rowOf_simps)
  have "sorted_wrt (\<lambda>a b. compareRows lc a b \<le> 0) (sortBy (compareRows lc) ?R)"
  proof (rule sorted_sortBy [where A = "set ?R"])
    fix a b assume "a \<in> set ?R" "b \<in> set ?R"
    then show "compareRows lc a b \<le> 0 \<or> compareRows lc b a \<le> 0"
      using specRowOrder_total [OF coll, of a b] ids
      by (simp only: compareRows_spec_on_rows)
  next
    fix a b c assume "a \<in> set ?R" "b \<in> set ?R" "c \<in> set ?R"
      and "compareRows lc a b \<le> 0" "compareRows lc b c \<le> 0"
    then show "compareRows lc a c \<le> 0"
      using specRowOrder_trans [OF coll, of a b c] ids
      by (simp only: compareRows_spec_on_rows)
  qed simp
  then have "sorted_wrt (specRowOrder lc) (sortBy (compareRows lc) ?R)"
    by (rule sorted_wrt_mono_rel [rotated])
       (simp only: set_sortBy compareRows_spec_on_rows)
  then show ?thesis by (simp only: rows_calculateScore)
qed

lemma rows_permutation_invariant:
  assumes dist: "distinct (map fst fs)" and perm: "mset fs' = mset fs"
    and coll: "collatesOn (fst ` set fs) lc"
  shows "rows (calculateScore lc fs' t m u ua) = rows (calculateScore lc fs t m u ua)"
proof (rule sorted_wrt_unique [where le = "specRowOrder lc"])
  from perm have sets: "set fs' = set fs" by (metis set_mset_mset)
  with coll have coll': "collatesOn (fst ` set fs') lc" by simp
  show "sorted_wrt (specRowOrder lc) (rows (calculateScore lc fs' t m u ua))"
    by (rule sorted_rows_calculateScore [OF coll'])
  show "sorted_wrt (specRowOrder lc) (rows (calculateScore lc fs t m u ua))"
    by (rule sorted_rows_calculateScore [OF coll])
  show "mset (rows (calculateScore lc fs' t m u ua)) = mset (rows (calculateScore lc fs t m u ua))"
    using perm by (simp add: rows_calculateScore mset_sortBy)
  fix a b
  assume a: "a \<in> set (rows (calculateScore lc fs' t m u ua))"
    and b: "b \<in> set (rows (calculateScore lc fs' t m u ua))"
    and ab: "specRowOrder lc a b" and ba: "specRowOrder lc b a"
  from a b sets obtain ea eb where e: "ea \<in> set fs" "eb \<in> set fs"
      "a = rowOf t m u ua ea" "b = rowOf t m u ua eb"
    by (auto simp: rows_calculateScore set_sortBy)
  then have "feature_id a \<in> fst ` set fs" "feature_id b \<in> fst ` set fs"
    by (auto simp: rowOf_simps)
  from specRowOrder_antisym [OF coll this ab ba] e have "fst ea = fst eb"
    by (simp add: rowOf_simps)
  with dist e have "ea = eb"
    by (meson distinct_map inj_onD)
  with e show "a = b" by simp
qed

lemma sorted_rows_calculateScore_scorejs:
  "sorted_wrt scorejsRowOrder (rows (calculateScore_scorejs fs t u))"
proof -
  let ?R = "map (rowOf_scorejs t u) fs"
  have iff: "\<And>a b. a \<in> set ?R \<Longrightarrow> b \<in> set ?R
      \<Longrightarrow> (compareRows_scorejs a b \<le> 0) = scorejsRowOrder a b"
  proof -
    fix a b assume "a \<in> set ?R" "b \<in> set ?R"
    then obtain ea eb where "a = rowOf_scorejs t u ea" "b = rowOf_scorejs t u eb" by auto
    then show "(compareRows_scorejs a b \<le> 0) = scorejsRowOrder a b"
      by (simp add: compareRows_scorejs_le_iff
            [where sa = "status (snd ea)" and sb = "status (snd eb)"] rowOf_scorejs_simps)
  qed
  have "sorted_wrt (\<lambda>a b. compareRows_scorejs a b \<le> 0) (sortBy compareRows_scorejs ?R)"
  proof (rule sorted_sortBy [where A = "set ?R"])
    fix a b assume "a \<in> set ?R" "b \<in> set ?R"
    then show "compareRows_scorejs a b \<le> 0 \<or> compareRows_scorejs b a \<le> 0"
      by (simp only: iff) (auto simp: scorejsRowOrder_def)
  next
    fix a b c assume "a \<in> set ?R" "b \<in> set ?R" "c \<in> set ?R"
      and "compareRows_scorejs a b \<le> 0" "compareRows_scorejs b c \<le> 0"
    then show "compareRows_scorejs a c \<le> 0"
      by (simp only: iff) (auto simp: scorejsRowOrder_def)
  qed simp
  then have "sorted_wrt scorejsRowOrder (sortBy compareRows_scorejs ?R)"
    by (rule sorted_wrt_mono_rel [rotated]) (simp only: set_sortBy iff)
  then show ?thesis by (simp only: rows_calculateScore_scorejs)
qed

text \<open>
  C5 (amended). In the scoring engine with UA weighting the rows are sorted by status rank
  Limited < Newly < Widely < Unknown, then weight descending, then identifier ascending in
  the collation of \<open>localeCompare\<close>; there is one row per feature, and when the collation is
  a total order on the identifiers of the map, any two iteration orders of the same map give
  the same row list. In the engine of core/computed/baseline/score.js the rows are sorted
  with core limited rows first, then limited < unknown < newly < widely, then weight
  descending, with no identifier key.
\<close>

theorem C5_row_order:
  assumes "distinct (map fst fs)" and "mset fs' = mset fs"
    and "collatesOn (fst ` set fs) localeCompare"
  shows "rows (calculateScore localeCompare fs' t m u ua)
           = rows (calculateScore localeCompare fs t m u ua)
     \<and> sorted_wrt (specRowOrder localeCompare) (rows (calculateScore localeCompare fs t m u ua))
     \<and> mset (map feature_id (rows (calculateScore localeCompare fs t m u ua))) = mset (map fst fs)
     \<and> sorted_wrt scorejsRowOrder (rows (calculateScore_scorejs fs t u))"
proof -
  have "map feature_id (map (rowOf t m u ua) fs) = map fst fs"
    by (simp add: rowOf_simps)
  then have "mset (map feature_id (rows (calculateScore localeCompare fs t m u ua)))
               = mset (map fst fs)"
    by (metis mset_map mset_sortBy rows_calculateScore)
  with rows_permutation_invariant [OF assms] sorted_rows_calculateScore [OF assms(3)]
    sorted_rows_calculateScore_scorejs
  show ?thesis by blast
qed

theorem C5_row_order_witness:
  "distinct (map fst [(''bb'', statusRec Widely), (''a'', statusRec Limited)])
   \<and> mset [(''a'', statusRec Limited), (''bb'', statusRec Widely)] = mset [(''bb'', statusRec Widely), (''a'', statusRec Limited)]
   \<and> collatesOn (fst ` set [(''bb'', statusRec Widely), (''a'', statusRec Limited)])
        (\<lambda>a b. int (length a) - int (length b))
   \<and> rows (calculateScore (\<lambda>a b. int (length a) - int (length b))
              [(''a'', statusRec Limited), (''bb'', statusRec Widely)] [] Map.empty None
              \<lparr>safari = None, chrome = None, firefox = None, edge = None\<rparr>)
     = rows (calculateScore (\<lambda>a b. int (length a) - int (length b))
              [(''bb'', statusRec Widely), (''a'', statusRec Limited)] [] Map.empty None
              \<lparr>safari = None, chrome = None, firefox = None, edge = None\<rparr>)"
proof -
  have d: "distinct (map fst [(''bb'', statusRec Widely), (''a'', statusRec Limited)])" by simp
  have p: "mset [(''a'', statusRec Limited), (''bb'', statusRec Widely)] = mset [(''bb'', statusRec Widely), (''a'', statusRec Limited)]"
    by simp
  have c: "collatesOn (fst ` set [(''bb'', statusRec Widely), (''a'', statusRec Limited)])
        (\<lambda>a b. int (length a) - int (length b))"
    by (simp add: collatesOn_def)
  from C5_row_order [OF d p c] d p c show ?thesis by blast
qed

lemma tokenCount_Nil: "tokenCountFor f [] = 0"
  by (simp add: tokenCountFor_def)

lemma w_scorejs_Nil: "calculateUsageWeight_scorejs f None [] = (if isCoreFeature f then 0.36 else 0.3)"
  by (simp add: calculateUsageWeight_scorejs_def tokenCount_Nil)

text \<open>
  C5 as stated fails on score.js: an unknown row precedes a newly row, and two rows that tie
  on status and weight come out in the iteration order of the input map.
\<close>

theorem C5_counterexample:
  "map (\<lambda>r. (feature_id r, rstatus r))
     (rows (calculateScore_scorejs [(''b'', statusRec Unknown), (''a'', statusRec Newly)] [] None))
     = [(''b'', ''unknown''), (''a'', ''newly'')]
   \<and> map feature_id (rows (calculateScore_scorejs [(''a'', statusRec Widely), (''b'', statusRec Widely)] [] None))
     = [''a'', ''b'']
   \<and> map feature_id (rows (calculateScore_scorejs [(''b'', statusRec Widely), (''a'', statusRec Widely)] [] None))
     = [''b'', ''a'']"
  by (simp add: rows_calculateScore_scorejs rowOf_scorejs_def w_scorejs_Nil isCoreFeature_def
        coreFeatures_def statusRec_def sortBy_def compareRows_scorejs_def statusOrder_scorejs_def
        orOne_def Let_def)

section \<open>Weight bounds\<close>

text \<open>
  C4 (amended). In the scoring engine with UA weighting the final weight of every feature
  (after usage weighting, coverage adjustment, UA factor and vendor-niche downweight) lies in
  [0.5, 1.5], and so does the weight of every row. In the engine of
  core/computed/baseline/score.js the weight of every feature and row lies in [0.3, 2.0].
\<close>

theorem C4_weight_bounds:
  "0.5 \<le> featureWeight f s t m u ua \<and> featureWeight f s t m u ua \<le> 1.5
   \<and> list_all (\<lambda>r. 0.5 \<le> rowWeight r \<and> rowWeight r \<le> 1.5)
        (rows (calculateScore localeCompare fs t m u ua))
   \<and> 0.3 \<le> calculateUsageWeight_scorejs f u t \<and> calculateUsageWeight_scorejs f u t \<le> 2.0
   \<and> list_all (\<lambda>r. 0.3 \<le> rowWeight r \<and> rowWeight r \<le> 2.0)
        (rows (calculateScore_scorejs fs t u))"
proof -
  have a: "list_all (\<lambda>r. 0.5 \<le> rowWeight r \<and> rowWeight r \<le> 1.5)
        (rows (calculateScore localeCompare fs t m u ua))"
  proof -
    have "\<forall>r\<in>set (map (rowOf t m u ua) fs). 0.5 \<le> rowWeight r \<and> rowWeight r \<le> 1.5"
    proof
      fix r assume "r \<in> set (map (rowOf t m u ua) fs)"
      then obtain e where "r = rowOf t m u ua e" by auto
      then show "0.5 \<le> rowWeight r \<and> rowWeight r \<le> 1.5"
        using featureWeight_range [of "fst e" "status (snd e)" t m u ua]
        by (simp only: rowOf_simps)
    qed
    then show ?thesis by (simp only: rows_calculateScore list_all_iff set_sortBy)
  qed
  have b: "list_all (\<lambda>r. 0.3 \<le> rowWeight r \<and> rowWeight r \<le> 2.0)
        (rows (calculateScore_scorejs fs t u))"
  proof -
    have "\<forall>r\<in>set (map (rowOf_scorejs t u) fs). 0.3 \<le> rowWeight r \<and> rowWeight r \<le> 2.0"
    proof
      fix r assume "r \<in> set (map (rowOf_scorejs t u) fs)"
      then obtain e where "r = rowOf_scorejs t u e" by auto
      then show "0.3 \<le> rowWeight r \<and> rowWeight r \<le> 2.0"
        using weight_scorejs_range [of "fst e" u t]
        by (simp only: rowOf_scorejs_simps)
    qed
    then show ?thesis by (simp only: rows_calculateScore_scorejs list_all_iff set_sortBy)
  qed
  from a b featureWeight_range [of f s t m u ua] weight_scorejs_range [of f u t]
  show ?thesis by blast
qed

text \<open>
  C4 as stated fails on score.js: the core feature \<open>abortable-fetch\<close>, found through the token
  \<open>AbortController\<close>, gets the weight 0.36, below 0.5.
\<close>

lemma tokenCount_abortable:
  "tokenCountFor ''abortable-fetch'' [\<lparr>token = ''AbortController'', originType = None\<rparr>] = 0"
  by (simp add: tokenCountFor_def toLowerCase_def toLowerChar_def)

lemma weight_abortable:
  "calculateUsageWeight_scorejs ''abortable-fetch'' None
      [\<lparr>token = ''AbortController'', originType = None\<rparr>] = 0.36"
  by (simp add: calculateUsageWeight_scorejs_def tokenCount_abortable isCoreFeature_def
        coreFeatures_def)

theorem C4_counterexample:
  "calculateUsageWeight_scorejs ''abortable-fetch'' None
      [\<lparr>token = ''AbortController'', originType = None\<rparr>] = 0.36
   \<and> map weight (rows (calculateScore_scorejs [(''abortable-fetch'', statusRec Widely)]
        [\<lparr>token = ''AbortController'', originType = None\<rparr>] None)) = [Some 0.36]"
  by (simp add: calculateScore_scorejs_def scoreStep_scorejs_def emptyAcc_def sortBy_def
        weight_abortable Let_def)

section \<open>Resolver: completeness of the resolved map and cached failures\<close>

lemma map_of_mapSet: "map_of (mapSet k v m) = (map_of m)(k \<mapsto> v)"
  by (induction m) auto

lemma keys_dom: "set (map fst m) = dom (map_of m)"
  by (simp add: dom_map_of_conv_image_fst)

lemma keys_mapSet: "set (map fst (mapSet k v m)) = insert k (set (map fst m))"
  unfolding keys_dom map_of_mapSet by simp

lemma distinct_mapSet: "distinct (map fst m) \<Longrightarrow> distinct (map fst (mapSet k v m))"
proof (induction m)
  case Nil
  show ?case by simp
next
  case (Cons kv m)
  obtain k' v' where kv: "kv = (k', v')" by (cases kv)
  show ?case
  proof (cases "k' = k")
    case True
    with Cons.prems show ?thesis by (simp add: kv)
  next
    case False
    have "k' \<notin> set (map fst (mapSet k v m))"
      unfolding keys_mapSet using False Cons.prems by (simp add: kv)
    with False Cons show ?thesis by (simp add: kv)
  qed
qed







lemma markUnknown_step:
  "markUnknown (r, c) i = (mapSet i unknownStatus r, c(i \<mapsto> unknownStatus))"
  by (simp add: markUnknown_def)



lemma markUnknown_fold_distinct:
  "distinct (map fst r) \<Longrightarrow> distinct (map fst (fst (foldl markUnknown (r, c) ids)))"
proof (induction ids arbitrary: r c)
  case Nil
  then show ?case by simp
next
  case (Cons i ids)
  show ?case
    unfolding foldl_Cons markUnknown_step
    by (rule Cons.IH) (rule distinct_mapSet [OF Cons.prems])
qed

lemma recordFeature_step:
  "recordFeature (r, c, fo) f =
     (if wf_id f = [] then (r, c, fo)
      else (mapSet (wf_id f) (statusOfFeature f) r, c(wf_id f \<mapsto> statusOfFeature f),
            wf_id f # fo))"
  by (simp add: recordFeature_def)







lemma recordFeature_fold_distinct:
  "distinct (map fst r) \<Longrightarrow> distinct (map fst (fst (foldl recordFeature (r, c, fo) fs)))"
proof (induction fs arbitrary: r c fo)
  case Nil
  then show ?case by simp
next
  case (Cons f fs)
  show ?case
  proof (cases "wf_id f = []")
    case True
    then show ?thesis unfolding foldl_Cons recordFeature_step
      using Cons.IH [OF Cons.prems] by simp
  next
    case False
    then show ?thesis unfolding foldl_Cons recordFeature_step
      using Cons.IH [OF distinct_mapSet [OF Cons.prems]] by simp
  qed
qed









lemma processBatch_alt:
  "processBatch env ids st =
     (if ids = [] then ([], st)
      else (let r = fetchFeaturesBatch env ids 0 st; st1 = snd r in
            case fst r of
              Inr features \<Rightarrow>
                (let acc = foldl recordFeature ([], cache st1, []) features;
                     acc2 = foldl markUnknown (fst acc, fst (snd acc))
                              (filter (\<lambda>i. i \<notin> set (snd (snd acc))) ids)
                 in (fst acc2, st1\<lparr> cache := snd acc2 \<rparr>))
            | Inl msg \<Rightarrow>
                (let acc2 = foldl markUnknown ([], cache st1) ids
                 in (fst acc2, st1\<lparr> cache := snd acc2 \<rparr>))))"
  by (simp add: processBatch_def Let_def split: prod.splits sum.splits)


lemma processBatch_distinct: "distinct (map fst (fst (processBatch env ids st)))"
proof (cases "fst (fetchFeaturesBatch env ids 0 st)")
  case (Inl msg)
  then show ?thesis
    by (simp add: processBatch_alt Let_def markUnknown_fold_distinct)
next
  case (Inr fs)
  have "distinct (map fst (fst (foldl recordFeature ([], cache (snd (fetchFeaturesBatch env ids 0 st)), []) fs)))"
    by (rule recordFeature_fold_distinct) simp
  with Inr show ?thesis
    by (simp add: processBatch_alt Let_def)
       (metis markUnknown_fold_distinct prod.collapse)
qed
















































































end
